theory Spec2Isabelle
  imports Complex_Main "HOL-Library.Sublist"
begin

section \<open>JavaScript strings and numbers\<close>

text \<open>
  Strings are byte lists; the white space of \<^verbatim>\<open>trim\<close> and of the regular
  expression class \<^verbatim>\<open>\s\<close> is the ASCII white space, and \<^verbatim>\<open>toLowerCase\<close> folds the
  ASCII letters. A JavaScript number that may be \<^verbatim>\<open>NaN\<close> is an \<open>int option\<close>
  (\<open>None\<close> is \<^verbatim>\<open>NaN\<close>); durations, which the source holds in doubles, are exact
  rationals.
\<close>

definition isSpace :: "char \<Rightarrow> bool" where
  "isSpace c = (c = CHR '' '' \<or> c = CHR 0x09 \<or> c = CHR 0x0A \<or> c = CHR 0x0B
                \<or> c = CHR 0x0C \<or> c = CHR 0x0D)"

definition trim :: "string \<Rightarrow> string" where
  "trim s = rev (dropWhile isSpace (rev (dropWhile isSpace s)))"

definition lowerChar :: "char \<Rightarrow> char" where
  "lowerChar c =
     (case map_of (zip ''ABCDEFGHIJKLMNOPQRSTUVWXYZ'' ''abcdefghijklmnopqrstuvwxyz'') c of
        Some l \<Rightarrow> l | None \<Rightarrow> c)"

definition upperChar :: "char \<Rightarrow> char" where
  "upperChar c =
     (case map_of (zip ''abcdefghijklmnopqrstuvwxyz'' ''ABCDEFGHIJKLMNOPQRSTUVWXYZ'') c of
        Some u \<Rightarrow> u | None \<Rightarrow> c)"

definition toLowerCase :: "string \<Rightarrow> string" where
  "toLowerCase s = map lowerChar s"

definition toUpperCase :: "string \<Rightarrow> string" where
  "toUpperCase s = map upperChar s"

definition isDigit :: "char \<Rightarrow> bool" where
  "isDigit c = (let n = (of_char c :: nat) in 48 \<le> n \<and> n \<le> 57)"

definition digitVal :: "char \<Rightarrow> nat" where
  "digitVal c = (of_char c :: nat) - 48"

definition digitsVal :: "string \<Rightarrow> nat" where
  "digitsVal ds = foldl (\<lambda>a c. a * 10 + digitVal c) 0 ds"

text \<open>\<^verbatim>\<open>String(n)\<close> for a whole number.\<close>

fun strNat :: "nat \<Rightarrow> string" where
  "strNat n = (if n < 10 then [''0123456789'' ! n]
               else strNat (n div 10) @ [''0123456789'' ! (n mod 10)])"

declare strNat.simps [simp del]

definition strInt :: "int \<Rightarrow> string" where
  "strInt i = (if i < 0 then CHR ''-'' # strNat (nat (- i)) else strNat (nat i))"

definition numStr :: "int option \<Rightarrow> string" where
  "numStr v = (case v of None \<Rightarrow> ''NaN'' | Some i \<Rightarrow> strInt i)"

text \<open>\<^verbatim>\<open>s.padStart(2, "0")\<close>.\<close>

definition padStart2 :: "string \<Rightarrow> string" where
  "padStart2 s = replicate (2 - length s) (CHR ''0'') @ s"

text \<open>
  \<^verbatim>\<open>parseInt(s)\<close> on the texts the program gives it: leading white space, an
  optional sign, then the longest run of decimal digits; \<open>None\<close> (\<^verbatim>\<open>NaN\<close>) when there
  is no digit. A text with a \<^verbatim>\<open>0x\<close> prefix, which JavaScript reads in base 16,
  is read as the single digit 0 here.
\<close>

definition parseInt :: "string \<Rightarrow> int option" where
  "parseInt s =
     (let t = dropWhile isSpace s;
          neg = (t \<noteq> [] \<and> hd t = CHR ''-'');
          u = (if t \<noteq> [] \<and> (hd t = CHR ''-'' \<or> hd t = CHR ''+'') then tl t else t);
          ds = takeWhile isDigit u
      in if ds = [] then None
         else Some ((if neg then - 1 else 1) * int (digitsVal ds)))"

text \<open>\<^verbatim>\<open>s.split("-")\<close>.\<close>

fun splitOn :: "char \<Rightarrow> string \<Rightarrow> string list" where
  "splitOn d [] = [[]]"
| "splitOn d (c # cs) =
     (if c = d then [] # splitOn d cs
      else (case splitOn d cs of p # ps \<Rightarrow> (c # p) # ps | [] \<Rightarrow> [[c]]))"

text \<open>
  \<^verbatim>\<open>const [yearStr, monthStr] = month.split("-"); parseInt(yearStr); parseInt(monthStr)\<close>:
  a missing part is \<^verbatim>\<open>undefined\<close>, which \<^verbatim>\<open>parseInt\<close> reads as \<^verbatim>\<open>NaN\<close>.
\<close>

definition monthParts :: "string \<Rightarrow> int option \<times> int option" where
  "monthParts month =
     (let parts = splitOn (CHR ''-'') month
      in ((if 0 < length parts then parseInt (parts ! 0) else None),
          (if 1 < length parts then parseInt (parts ! 1) else None)))"

text \<open>\<^verbatim>\<open>Math.round\<close>, and the remainder operator \<^verbatim>\<open>%\<close>, whose sign is the dividend's.\<close>

definition mathRound :: "rat \<Rightarrow> int" where
  "mathRound x = \<lfloor>x + 1 / 2\<rfloor>"

definition jsRem :: "rat \<Rightarrow> rat \<Rightarrow> rat" where
  "jsRem x y = x - y * of_int (if 0 \<le> x / y then \<lfloor>x / y\<rfloor> else \<lceil>x / y\<rceil>)"

section \<open>The calendar of the \<^verbatim>\<open>Date\<close> object\<close>

text \<open>
  Day numbers count from 1970-01-01 as in the ECMAScript definition of \<^verbatim>\<open>MakeDay\<close>;
  a month index outside 0..11 carries into the year, and a year argument in 0..99 of
  \<^verbatim>\<open>new Date(year, monthIndex, day)\<close> means 1900 + year. The local time zone is taken
  to keep the calendar date of local midnight.
\<close>

definition DayFromYear :: "int \<Rightarrow> int" where
  "DayFromYear y = 365 * (y - 1970) + (y - 1969) div 4 - (y - 1901) div 100 + (y - 1601) div 400"

definition InLeapYear :: "int \<Rightarrow> bool" where
  "InLeapYear y = (y mod 4 = 0 \<and> (y mod 100 \<noteq> 0 \<or> y mod 400 = 0))"

definition monthOffset :: "int \<Rightarrow> nat \<Rightarrow> int" where
  "monthOffset y mn =
     [0, 31, 59, 90, 120, 151, 181, 212, 243, 273, 304, 334] ! mn
     + (if 2 \<le> mn \<and> InLeapYear y then 1 else 0)"

definition MakeDay :: "int \<Rightarrow> int \<Rightarrow> int \<Rightarrow> int" where
  "MakeDay year month date =
     (let ym = year + month div 12; mn = nat (month mod 12)
      in DayFromYear ym + monthOffset ym mn + date - 1)"

definition fullYear :: "int \<Rightarrow> int" where
  "fullYear y = (if 0 \<le> y \<and> y \<le> 99 then 1900 + y else y)"

text \<open>\<^verbatim>\<open>new Date(year, monthIndex, day).getDay()\<close>: 0 is Sunday, 6 is Saturday.\<close>

definition getDay :: "int option \<Rightarrow> int option \<Rightarrow> int \<Rightarrow> int option" where
  "getDay year monthIndex dayNo =
     (case (year, monthIndex) of
        (Some y, Some m) \<Rightarrow> Some ((MakeDay (fullYear y) m dayNo + 4) mod 7)
      | _ \<Rightarrow> None)"

text \<open>
  \<^verbatim>\<open>new Date(year, monthNum, 0).getDate()\<close>: day 0 of the month with index \<open>monthNum\<close>
  is the last day of the month before it, so its day of the month is the distance
  between the two first days.
\<close>

definition lastDayOfMonth :: "int option \<Rightarrow> int option \<Rightarrow> int option" where
  "lastDayOfMonth year monthNum =
     (case (year, monthNum) of
        (Some y, Some m) \<Rightarrow> Some (MakeDay (fullYear y) m 1 - MakeDay (fullYear y) (m - 1) 1)
      | _ \<Rightarrow> None)"

text \<open>\<^verbatim>\<open>toLocaleString("en-US", {weekday: "short"})\<close> and \<^verbatim>\<open>{weekday: "long"}\<close>.\<close>

definition weekdayShort :: "int option \<Rightarrow> string" where
  "weekdayShort wd =
     (case wd of None \<Rightarrow> ''Invalid Date''
      | Some d \<Rightarrow> [''Sun'', ''Mon'', ''Tue'', ''Wed'', ''Thu'', ''Fri'', ''Sat''] ! nat d)"

definition weekdayLong :: "int option \<Rightarrow> string" where
  "weekdayLong wd =
     (case wd of None \<Rightarrow> ''Invalid Date''
      | Some d \<Rightarrow> [''Sunday'', ''Monday'', ''Tuesday'', ''Wednesday'', ''Thursday'',
                    ''Friday'', ''Saturday''] ! nat d)"

text \<open>The loop \<^verbatim>\<open>for (let day = 1; day <= daysInMonth; day++)\<close>; it does not run on \<^verbatim>\<open>NaN\<close>.\<close>

definition dayRange :: "int option \<Rightarrow> int list" where
  "dayRange n = (case n of None \<Rightarrow> [] | Some k \<Rightarrow> [1..k])"

text \<open>\<^verbatim>\<open>`${String(day).padStart(2, "0")} ${date.toLocaleString("en-US", {weekday: "short"})}`\<close>.\<close>

definition formatDateWeekday :: "int option \<Rightarrow> int option \<Rightarrow> int \<Rightarrow> string" where
  "formatDateWeekday year monthNum dayNo =
     padStart2 (strInt dayNo) @ '' '' @
     weekdayShort (getDay year (map_option (\<lambda>m. m - 1) monthNum) dayNo)"

section \<open>Daily records\<close>

text \<open>
  The six raw time texts of a day, the raw record read from a worksheet row (the six
  texts and the four precomputed cells), the computed metrics, and a time-card entry.
  A field that is \<^verbatim>\<open>undefined\<close> in the source (the record \<^verbatim>\<open>{}\<close> of a day without a
  row) is the empty text: the source only ever tests these fields for truthiness.
\<close>

record times =
  am_arrival :: string
  am_departure :: string
  pm_arrival :: string
  pm_departure :: string
  ot_arrival :: string
  ot_departure :: string

record rawRecord = times +
  late_excel :: string
  undertime_excel :: string
  overtime_hours_excel :: string
  total_hours_excel :: string

record metrics = times +
  total_hours :: string
  late :: string
  early_out :: string
  overtime :: string
  remarks :: string
  undertime_hours :: string
  undertime_minutes :: string

record timeCardEntry = metrics +
  day :: int
  dateWeekday :: string

text \<open>The record \<^verbatim>\<open>{}\<close>.\<close>

definition emptyRecord :: rawRecord where
  "emptyRecord = \<lparr>am_arrival = [], am_departure = [], pm_arrival = [], pm_departure = [],
     ot_arrival = [], ot_departure = [], late_excel = [], undertime_excel = [],
     overtime_hours_excel = [], total_hours_excel = []\<rparr>"

text \<open>A value of the variables \<^verbatim>\<open>undertime_hours\<close> and \<^verbatim>\<open>undertime_minutes\<close>: a text or a number.\<close>

datatype uval = UStr string | UNum int

definition uString :: "uval \<Rightarrow> string" where
  "uString u = (case u of UStr s \<Rightarrow> s | UNum n \<Rightarrow> strInt n)"

text \<open>\<^verbatim>\<open>String(record.undertime_excel).match(/^(\d+):(\d+)$/)\<close>, the two groups as texts.\<close>

definition matchHM :: "string \<Rightarrow> (string \<times> string) option" where
  "matchHM s =
     (let h = takeWhile isDigit s; r = drop (length h) s
      in if h \<noteq> [] \<and> r \<noteq> [] \<and> hd r = CHR '':'' \<and> tl r \<noteq> [] \<and> list_all isDigit (tl r)
         then Some (h, tl r) else None)"

definition precomputedUndertime :: "string \<Rightarrow> uval \<times> uval" where
  "precomputedUndertime ut =
     (if ut \<noteq> [] then
        (case matchHM ut of
           Some (h, m) \<Rightarrow> (UNum (int (digitsVal h)), UNum (int (digitsVal m)))
         | None \<Rightarrow> (UStr [], UStr []))
      else (UStr [], UStr []))"

section \<open>The daily metrics calculators\<close>

text \<open>
  \<open>parseDate\<close> stands for \<^verbatim>\<open>new Date(text).getTime()\<close>, the platform's parser of a
  date-time text: the time stamp in milliseconds, or \<open>None\<close> for an invalid date. The
  calculators are stated over any such parser. A time variable of the source is
  \<^verbatim>\<open>null\<close> for an empty text and may be an invalid date; both are \<open>None\<close>, since every
  use is guarded by \<^verbatim>\<open>t && !isNaN(t)\<close> and a comparison with an invalid date is false.
\<close>

definition dateStringOf :: "int option \<Rightarrow> int option \<Rightarrow> int \<Rightarrow> string" where
  "dateStringOf year monthNum dayNo =
     numStr year @ ''-'' @ padStart2 (numStr monthNum) @ ''-'' @ padStart2 (strInt dayNo)"

definition timeOf :: "(string \<Rightarrow> int option) \<Rightarrow> string \<Rightarrow> string \<Rightarrow> int option" where
  "timeOf parseDate dateString t =
     (if t \<noteq> [] then parseDate (dateString @ '' '' @ t) else None)"

text \<open>
  \<^verbatim>\<open>(out.getTime() - in.getTime()) / unit\<close> when both times are valid and \<^verbatim>\<open>out > in\<close>,
  else 0: the guarded assignment the source writes out for each pair.
\<close>

definition pairDuration :: "int option \<Rightarrow> int option \<Rightarrow> rat \<Rightarrow> rat" where
  "pairDuration inTime outTime unit =
     (case (inTime, outTime) of
        (Some i, Some out) \<Rightarrow> if out > i then of_int (out - i) / unit else 0
      | _ \<Rightarrow> 0)"

definition hasActualWorkEntries :: "'a times_scheme \<Rightarrow> bool" where
  "hasActualWorkEntries r =
     (am_arrival r \<noteq> [] \<or> am_departure r \<noteq> [] \<or> pm_arrival r \<noteq> [] \<or> pm_departure r \<noteq> []
      \<or> ot_arrival r \<noteq> [] \<or> ot_departure r \<noteq> [])"

text \<open>\<^verbatim>\<open>`${h}h ${String(m).padStart(2, "0")}m`\<close>.\<close>

definition formatHM :: "int \<Rightarrow> int \<Rightarrow> string" where
  "formatHM h m = strInt h @ ''h '' @ padStart2 (strInt m) @ ''m''"

definition appendRemark :: "string \<Rightarrow> string \<Rightarrow> string" where
  "appendRemark remarks0 tag = (if remarks0 \<noteq> [] then remarks0 @ '', '' else []) @ tag"

text \<open>The undertime of a day with work entries: \<^verbatim>\<open>Math.max(480 - workedMinutes, 0)\<close>.\<close>

definition workedUndertime :: "int option \<Rightarrow> int option \<Rightarrow> int option \<Rightarrow> int option \<Rightarrow> uval \<times> uval" where
  "workedUndertime amInTime amOutTime pmInTime pmOutTime =
     (let workedMinutes = pairDuration amInTime amOutTime (1000 * 60)
                          + pairDuration pmInTime pmOutTime (1000 * 60);
          calculatedUndertimeMinutes = max (480 - workedMinutes) 0
      in if calculatedUndertimeMinutes > 0
         then (UNum \<lfloor>calculatedUndertimeMinutes / 60\<rfloor>,
               UNum (mathRound (jsRem calculatedUndertimeMinutes 60)))
         else (UStr [], UStr []))"

text \<open>The steps both calculators share word for word: late, early out, overtime, total.\<close>

definition lateStep :: "string \<Rightarrow> string \<Rightarrow> int option \<Rightarrow> int option \<Rightarrow> string \<times> string" where
  "lateStep late0 remarks0 amInTime standardStartTime =
     (case (amInTime, standardStartTime) of
        (Some a, Some s) \<Rightarrow>
          if late0 = [] \<and> a > s then
            (let lateMinutes = (of_int (a - s) :: rat) / (1000 * 60)
             in (formatHM \<lfloor>lateMinutes / 60\<rfloor> (mathRound (jsRem lateMinutes 60)),
                 appendRemark remarks0 ''Late''))
          else (late0, remarks0)
      | _ \<Rightarrow> (late0, remarks0))"

definition earlyOutStep :: "string \<Rightarrow> int option \<Rightarrow> int option \<Rightarrow> string \<times> string" where
  "earlyOutStep remarks0 pmOutTime standardEndTime =
     (case (pmOutTime, standardEndTime) of
        (Some p, Some e) \<Rightarrow>
          if p < e then
            (let earlyOutMinutes = (of_int (e - p) :: rat) / (1000 * 60)
             in (formatHM \<lfloor>earlyOutMinutes / 60\<rfloor> (mathRound (jsRem earlyOutMinutes 60)),
                 appendRemark remarks0 ''Early Out''))
          else ([], remarks0)
      | _ \<Rightarrow> ([], remarks0))"

definition overtimeStep :: "string \<Rightarrow> string \<Rightarrow> rat \<Rightarrow> rat \<Rightarrow> string \<times> string" where
  "overtimeStep overtime0 remarks0 totalWorkDurationHours overtimeCalculatedDuration =
     (if overtime0 = [] then
        (let totalWorkHoursForOTCalc = totalWorkDurationHours + overtimeCalculatedDuration
         in if totalWorkHoursForOTCalc > 8 then
              (let otCalculated = totalWorkHoursForOTCalc - 8
               in (formatHM \<lfloor>otCalculated\<rfloor> (mathRound (jsRem otCalculated 1 * 60)),
                   appendRemark remarks0 ''Overtime''))
            else ([], remarks0))
      else (overtime0, remarks0))"

definition totalHoursStep :: "string \<Rightarrow> bool \<Rightarrow> rat \<Rightarrow> rat \<Rightarrow> string" where
  "totalHoursStep totalHours0 hasEntries totalWorkDurationHours overtimeCalculatedDuration =
     (if totalHours0 = [] \<and> hasEntries \<and> totalWorkDurationHours + overtimeCalculatedDuration > 0
      then (let totalWorkHoursIncludingOT = totalWorkDurationHours + overtimeCalculatedDuration
            in formatHM \<lfloor>totalWorkHoursIncludingOT\<rfloor> (mathRound (jsRem totalWorkHoursIncludingOT 1 * 60)))
      else totalHours0)"

text \<open>\<^verbatim>\<open>calculateDailyMetricsFromTimes\<close> of utils.js, used by the block-format parser.\<close>

definition calculateDailyMetricsFromTimes ::
  "(string \<Rightarrow> int option) \<Rightarrow> rawRecord \<Rightarrow> int option \<Rightarrow> int option \<Rightarrow> int \<Rightarrow> metrics" where
  "calculateDailyMetricsFromTimes parseDate record year monthNum dayNo =
     (let late0 = late_excel record;
          overtime0 = overtime_hours_excel record;
          totalHours0 = total_hours_excel record;
          (ut_h0, ut_m0) = precomputedUndertime (undertime_excel record);
          dateString = dateStringOf year monthNum dayNo;
          amInTime = timeOf parseDate dateString (am_arrival record);
          amOutTime = timeOf parseDate dateString (am_departure record);
          pmInTime = timeOf parseDate dateString (pm_arrival record);
          pmOutTime = timeOf parseDate dateString (pm_departure record);
          otInTime = timeOf parseDate dateString (ot_arrival record);
          otOutTime = timeOf parseDate dateString (ot_departure record);
          morningDuration = pairDuration amInTime amOutTime (1000 * 60 * 60);
          afternoonDuration = pairDuration pmInTime pmOutTime (1000 * 60 * 60);
          overtimeCalculatedDuration = pairDuration otInTime otOutTime (1000 * 60 * 60);
          totalWorkDurationHours = morningDuration + afternoonDuration;
          standardStartTime = parseDate (dateString @ '' 08:00'');
          standardEndTime = parseDate (dateString @ '' 17:00'');
          dayOfWeek = getDay year (map_option (\<lambda>m. m - 1) monthNum) dayNo;
          (ut_h, ut_m) =
            (if ut_h0 = UStr [] \<or> ut_m0 = UStr [] then
               (if hasActualWorkEntries record
                then workedUndertime amInTime amOutTime pmInTime pmOutTime
                else if dayOfWeek = Some 6 then (UStr ''Saturday'', UStr ''Saturday'')
                else if dayOfWeek = Some 0 then (UStr ''Sunday'', UStr ''Sunday'')
                else (UStr [], UStr []))
             else (ut_h0, ut_m0));
          (late1, remarks1) = lateStep late0 [] amInTime standardStartTime;
          (earlyOut, remarks2) = earlyOutStep remarks1 pmOutTime standardEndTime;
          (overtime1, remarks3) =
            overtimeStep overtime0 remarks2 totalWorkDurationHours overtimeCalculatedDuration;
          totalHours1 = totalHoursStep totalHours0 (hasActualWorkEntries record)
                          totalWorkDurationHours overtimeCalculatedDuration
      in \<lparr>am_arrival = am_arrival record, am_departure = am_departure record,
          pm_arrival = pm_arrival record, pm_departure = pm_departure record,
          ot_arrival = ot_arrival record, ot_departure = ot_departure record,
          total_hours = totalHours1, late = late1, early_out = earlyOut,
          overtime = overtime1, remarks = remarks3,
          undertime_hours = uString ut_h, undertime_minutes = uString ut_m\<rparr>)"

text \<open>
  \<^verbatim>\<open>calculateDailyMetricsFromTimesForSimpleParser\<close> of biometricParserSimple.js. It
  differs from the calculator above in the undertime step only: the recomputation is
  guarded by the day not being a Saturday or Sunday, and on a Saturday or Sunday both
  undertime fields are set to the empty text.
\<close>

definition calculateDailyMetricsFromTimesForSimpleParser ::
  "(string \<Rightarrow> int option) \<Rightarrow> rawRecord \<Rightarrow> int option \<Rightarrow> int option \<Rightarrow> int \<Rightarrow> metrics" where
  "calculateDailyMetricsFromTimesForSimpleParser parseDate record year monthNum dayNo =
     (let late0 = late_excel record;
          overtime0 = overtime_hours_excel record;
          totalHours0 = total_hours_excel record;
          (ut_h0, ut_m0) = precomputedUndertime (undertime_excel record);
          dateString = dateStringOf year monthNum dayNo;
          amInTime = timeOf parseDate dateString (am_arrival record);
          amOutTime = timeOf parseDate dateString (am_departure record);
          pmInTime = timeOf parseDate dateString (pm_arrival record);
          pmOutTime = timeOf parseDate dateString (pm_departure record);
          otInTime = timeOf parseDate dateString (ot_arrival record);
          otOutTime = timeOf parseDate dateString (ot_departure record);
          morningDuration = pairDuration amInTime amOutTime (1000 * 60 * 60);
          afternoonDuration = pairDuration pmInTime pmOutTime (1000 * 60 * 60);
          overtimeCalculatedDuration = pairDuration otInTime otOutTime (1000 * 60 * 60);
          totalWorkDurationHours = morningDuration + afternoonDuration;
          standardStartTime = parseDate (dateString @ '' 08:00'');
          standardEndTime = parseDate (dateString @ '' 17:00'');
          dayOfWeek = getDay year (map_option (\<lambda>m. m - 1) monthNum) dayNo;
          (ut_h, ut_m) =
            (if (ut_h0 = UStr [] \<or> ut_m0 = UStr []) \<and> dayOfWeek \<noteq> Some 0 \<and> dayOfWeek \<noteq> Some 6 then
               (if hasActualWorkEntries record
                then workedUndertime amInTime amOutTime pmInTime pmOutTime
                else (UStr [], UStr []))
             else if dayOfWeek = Some 0 \<or> dayOfWeek = Some 6 then (UStr [], UStr [])
             else (ut_h0, ut_m0));
          (late1, remarks1) = lateStep late0 [] amInTime standardStartTime;
          (earlyOut, remarks2) = earlyOutStep remarks1 pmOutTime standardEndTime;
          (overtime1, remarks3) =
            overtimeStep overtime0 remarks2 totalWorkDurationHours overtimeCalculatedDuration;
          totalHours1 = totalHoursStep totalHours0 (hasActualWorkEntries record)
                          totalWorkDurationHours overtimeCalculatedDuration
      in \<lparr>am_arrival = am_arrival record, am_departure = am_departure record,
          pm_arrival = pm_arrival record, pm_departure = pm_departure record,
          ot_arrival = ot_arrival record, ot_departure = ot_departure record,
          total_hours = totalHours1, late = late1, early_out = earlyOut,
          overtime = overtime1, remarks = remarks3,
          undertime_hours = uString ut_h, undertime_minutes = uString ut_m\<rparr>)"

text \<open>
  A parser for the witnesses: it reads exactly the texts \<^verbatim>\<open>YYYY-MM-DD HH:MM\<close> with
  a 24-hour clock, as the time stamp of that minute (the local zone taken as UTC).
\<close>

definition clockParse :: "string \<Rightarrow> int option" where
  "clockParse s =
     (if length s = 16 \<and> list_all isDigit (take 4 s) \<and> s ! 4 = CHR ''-''
         \<and> list_all isDigit (take 2 (drop 5 s)) \<and> s ! 7 = CHR ''-''
         \<and> list_all isDigit (take 2 (drop 8 s)) \<and> s ! 10 = CHR '' ''
         \<and> list_all isDigit (take 2 (drop 11 s)) \<and> s ! 13 = CHR '':''
         \<and> list_all isDigit (take 2 (drop 14 s))
         \<and> digitsVal (take 2 (drop 11 s)) < 24 \<and> digitsVal (take 2 (drop 14 s)) < 60
      then Some ((MakeDay (int (digitsVal (take 4 s))) (int (digitsVal (take 2 (drop 5 s))) - 1)
                    (int (digitsVal (take 2 (drop 8 s)))) * 1440
                  + int (digitsVal (take 2 (drop 11 s))) * 60
                  + int (digitsVal (take 2 (drop 14 s)))) * 60000)
      else None)"

section \<open>Worksheets and the platform\<close>

text \<open>
  A cell value \<^verbatim>\<open>cell.v\<close> is a text or a number (whole numbers: day numbers, ids). A
  worksheet is its cells by zero-based (row, column), the last row and column of its
  \<^verbatim>\<open>!ref\<close> range (absent for a sheet without cells), and the top-left corners of its
  merged ranges.
\<close>

datatype cellValue = CStr string | CNum int

record sheet =
  cellAt :: "int \<times> int \<Rightarrow> cellValue option"
  sheetRef :: "(int \<times> int) option"
  merges :: "(int \<times> int) list"

text \<open>A calendar date in local time: \<^verbatim>\<open>getFullYear()\<close>, \<^verbatim>\<open>getMonth() + 1\<close>, \<^verbatim>\<open>getDate()\<close>.\<close>

record civil =
  cYear :: int
  cMonth :: int
  cDay :: int

text \<open>The \<^verbatim>\<open>Date\<close> cell of a flat row: a text, or a \<^verbatim>\<open>Date\<close> object.\<close>

datatype dateValue = DateText string | DateObject civil

text \<open>
  A row of a flat sheet as \<^verbatim>\<open>sheet_to_json(sheet, {defval: "", raw: false})\<close> returns
  it, read at the keys \<^verbatim>\<open>Name\<close>, \<^verbatim>\<open>Date\<close>, \<^verbatim>\<open>Timetable\<close>, \<^verbatim>\<open>Clock In\<close>, \<^verbatim>\<open>Clock Out\<close>.
\<close>

record simpleRow =
  rowName :: string
  rowDate :: dateValue
  rowTimetable :: string
  rowClockIn :: string
  rowClockOut :: string

text \<open>
  What the program takes from its platform: \<open>newDate\<close> is \<^verbatim>\<open>new Date(text).getTime()\<close>
  (\<open>None\<close> for an invalid date), \<open>newDateFields\<close> is the local calendar date of
  \<^verbatim>\<open>new Date(text)\<close>, \<open>currentMonth\<close> is the year and the one-based month of
  \<^verbatim>\<open>new Date()\<close>, \<open>sheetRows\<close> is the library's \<^verbatim>\<open>sheet_to_json\<close> on a flat sheet, and
  \<open>serialDateISO\<close> is \<^verbatim>\<open>parseExcelDate(n).toISOString().split("T")[0]\<close>.
\<close>

record platform =
  newDate :: "string \<Rightarrow> int option"
  newDateFields :: "string \<Rightarrow> civil option"
  currentMonth :: "int \<times> int"
  sheetRows :: "sheet \<Rightarrow> simpleRow list"
  serialDateISO :: "int \<Rightarrow> string"

text \<open>An employee with the time card of one month.\<close>

record employee =
  userId :: string
  name :: string
  department :: string
  month :: string
  attendanceDateRange :: string
  tablingDate :: string
  timeCard :: "timeCardEntry list"

text \<open>\<^verbatim>\<open>String(cell?.v || "")\<close>: an absent cell, an empty text and the number 0 give the empty text.\<close>

definition cellText :: "cellValue option \<Rightarrow> string" where
  "cellText v = (case v of None \<Rightarrow> [] | Some (CStr s) \<Rightarrow> s
                 | Some (CNum n) \<Rightarrow> if n = 0 then [] else strInt n)"

section \<open>The simple-format parser\<close>

text \<open>
  \<^verbatim>\<open>parseDdMmYyyyDateString\<close>: three parts separated by a slash, read as day, month and
  year. The source builds \<^verbatim>\<open>new Date(year, month - 1, day)\<close> and keeps it when it shows
  the same year, month and day, which is when the month has that day.
\<close>

definition parseDdMmYyyyDateString :: "string \<Rightarrow> civil option" where
  "parseDdMmYyyyDateString dateString =
     (let parts = splitOn (CHR ''/'') dateString in
      if length parts = 3 then
        (case (parseInt (parts ! 0), parseInt (parts ! 1), parseInt (parts ! 2)) of
           (Some d, Some m, Some y) \<Rightarrow>
             if 1 \<le> m \<and> m \<le> 12 \<and> 1 \<le> d \<and> d \<le> 31 \<and> 1900 \<le> y \<and> y \<le> 2100
                \<and> (case lastDayOfMonth (Some y) (Some m) of Some n \<Rightarrow> d \<le> n | None \<Rightarrow> False)
             then Some \<lparr>cYear = y, cMonth = m, cDay = d\<rparr>
             else None
         | _ \<Rightarrow> None)
      else None)"

text \<open>The date of a row: \<open>None\<close> when the row is skipped for an invalid date.\<close>

definition rowDateOf :: "platform \<Rightarrow> dateValue \<Rightarrow> civil option" where
  "rowDateOf pf dateValue =
     (case dateValue of
        DateObject d \<Rightarrow> Some d
      | DateText t \<Rightarrow>
          (case parseDdMmYyyyDateString (trim t) of
             Some d \<Rightarrow> Some d
           | None \<Rightarrow> newDateFields pf (trim t)))"

text \<open>
  \<^verbatim>\<open>Array(31).fill(null).map((_, idx) => ...)\<close>: the 31 empty slots of a new employee,
  whatever the month.
\<close>

definition initialSlot :: "int \<Rightarrow> int \<Rightarrow> int \<Rightarrow> timeCardEntry" where
  "initialSlot year monthNum idx =
     \<lparr>am_arrival = [], am_departure = [], pm_arrival = [], pm_departure = [],
      ot_arrival = [], ot_departure = [], total_hours = [], late = [], early_out = [],
      overtime = [], remarks = [], undertime_hours = [], undertime_minutes = [],
      day = idx + 1,
      dateWeekday = padStart2 (strInt (idx + 1)) @ '' '' @
                    weekdayShort (getDay (Some year) (Some (monthNum - 1)) (idx + 1))\<rparr>"

definition initialTimeCard :: "int \<Rightarrow> int \<Rightarrow> timeCardEntry list" where
  "initialTimeCard year monthNum = map (initialSlot year monthNum) [0..30]"

definition newEmployee :: "string \<Rightarrow> int \<Rightarrow> int \<Rightarrow> employee" where
  "newEmployee nm year monthNum =
     \<lparr>userId = nm, name = nm, department = [],
      month = strInt year @ ''-'' @ padStart2 (strInt monthNum),
      attendanceDateRange = [], tablingDate = [],
      timeCard = initialTimeCard year monthNum\<rparr>"

text \<open>The assignment to the slot of the row's day, by the row's timetable.\<close>

definition fillSlot :: "string \<Rightarrow> string \<Rightarrow> string \<Rightarrow> timeCardEntry \<Rightarrow> timeCardEntry" where
  "fillSlot timetable clockIn clockOut slot =
     (if timetable = ''AM'' then slot\<lparr>am_arrival := clockIn, am_departure := clockOut\<rparr>
      else if timetable = ''PM'' then slot\<lparr>pm_arrival := clockIn, pm_departure := clockOut\<rparr>
      else slot)"

definition recordClock :: "int \<Rightarrow> string \<Rightarrow> string \<Rightarrow> string \<Rightarrow> employee \<Rightarrow> employee" where
  "recordClock dayNo timetable clockIn clockOut emp =
     (if 1 \<le> dayNo \<and> dayNo \<le> int (length (timeCard emp))
      then emp\<lparr>timeCard := (timeCard emp)[nat (dayNo - 1) :=
             fillSlot timetable clockIn clockOut (timeCard emp ! nat (dayNo - 1))]\<rparr>
      else emp)"

text \<open>
  The \<^verbatim>\<open>Map\<close> from key to employee, in insertion order: an association list with at
  most one entry for a key.
\<close>

fun mapSet :: "string \<Rightarrow> employee \<Rightarrow> (string \<times> employee) list \<Rightarrow> (string \<times> employee) list" where
  "mapSet k v [] = [(k, v)]"
| "mapSet k v ((k', v') # kvs) = (if k' = k then (k, v) # kvs else (k', v') # mapSet k v kvs)"

text \<open>One iteration of \<^verbatim>\<open>for (const row of rows)\<close>.\<close>

definition simpleRowStep :: "platform \<Rightarrow> (string \<times> employee) list \<Rightarrow> simpleRow \<Rightarrow> (string \<times> employee) list" where
  "simpleRowStep pf employeeMap row =
     (let nm = trim (rowName row);
          dateValue = rowDate row;
          timetable = toUpperCase (trim (rowTimetable row));
          clockIn = trim (rowClockIn row);
          clockOut = trim (rowClockOut row)
      in if nm = [] \<or> dateValue = DateText [] \<or> timetable = [] then employeeMap
         else (case rowDateOf pf dateValue of
                 None \<Rightarrow> employeeMap
               | Some date \<Rightarrow>
                   (let year = cYear date; monthNum = cMonth date; dayNo = cDay date;
                        key = nm @ ''-'' @ strInt year @ ''-'' @ padStart2 (strInt monthNum);
                        employeeData = (case map_of employeeMap key of
                                          Some e \<Rightarrow> e
                                        | None \<Rightarrow> newEmployee nm year monthNum)
                    in mapSet key (recordClock dayNo timetable clockIn clockOut employeeData)
                         employeeMap)))"

text \<open>The slot as the record the calculator reads: it has no precomputed field.\<close>

definition slotRecord :: "timeCardEntry \<Rightarrow> rawRecord" where
  "slotRecord slot =
     \<lparr>am_arrival = am_arrival slot, am_departure = am_departure slot,
      pm_arrival = pm_arrival slot, pm_departure = pm_departure slot,
      ot_arrival = ot_arrival slot, ot_departure = ot_departure slot,
      late_excel = [], undertime_excel = [], overtime_hours_excel = [], total_hours_excel = []\<rparr>"

text \<open>\<^verbatim>\<open>{ ...record, ...calculatedMetrics }\<close>: the metrics, with the slot's day and label.\<close>

definition withMetrics :: "timeCardEntry \<Rightarrow> metrics \<Rightarrow> timeCardEntry" where
  "withMetrics slot m = metrics.extend m \<lparr>day = day slot, dateWeekday = dateWeekday slot\<rparr>"

definition finishEmployee :: "platform \<Rightarrow> employee \<Rightarrow> employee" where
  "finishEmployee pf emp =
     (let (year, monthNum) = monthParts (month emp)
      in emp\<lparr>timeCard :=
           map (\<lambda>slot. withMetrics slot
                  (calculateDailyMetricsFromTimesForSimpleParser (newDate pf) (slotRecord slot)
                     year monthNum (day slot)))
               (timeCard emp)\<rparr>)"

text \<open>\<^verbatim>\<open>parseSimpleBiometric\<close>, on the rows of the first sheet.\<close>

definition parseSimpleBiometric :: "platform \<Rightarrow> simpleRow list \<Rightarrow> employee list" where
  "parseSimpleBiometric pf rows =
     map (finishEmployee pf) (map snd (foldl (simpleRowStep pf) [] rows))"

section \<open>The text-match locator\<close>

text \<open>The constants of utils.js.\<close>

definition GLOBAL_DATE_RANGE_TEXT :: string where "GLOBAL_DATE_RANGE_TEXT = ''Date''"
definition TABLING_DATE_TEXT :: string where "TABLING_DATE_TEXT = ''Tabling date:''"
definition HEADER_DEPARTMENT :: string where "HEADER_DEPARTMENT = ''Dept.''"
definition HEADER_NAME :: string where "HEADER_NAME = ''Name''"
definition HEADER_USER_ID :: string where "HEADER_USER_ID = ''User ID''"
definition HEADER_DAY :: string where "HEADER_DAY = ''Date/Weekday''"
definition HEADER_IN :: string where "HEADER_IN = ''In''"
definition HEADER_OUT :: string where "HEADER_OUT = ''Out''"
definition HEADER_SEARCH_START_ROW :: int where "HEADER_SEARCH_START_ROW = 0"
definition HEADER_SEARCH_END_ROW :: int where "HEADER_SEARCH_END_ROW = 100"

text \<open>
  The pattern \<^verbatim>\<open>/^date([\s\r\n]*\/[\s\r\n]*weekday)?$/i\<close> on a trimmed, lower-cased text.
\<close>

definition matchesDayHeader :: "string \<Rightarrow> bool" where
  "matchesDayHeader t =
     (t = ''date'' \<or>
      (take 4 t = ''date'' \<and>
       (let r = dropWhile isSpace (drop 4 t)
        in r \<noteq> [] \<and> hd r = CHR ''/'' \<and> dropWhile isSpace (tl r) = ''weekday'')))"

text \<open>
  The pattern \<^verbatim>\<open>findAllCellsByValue\<close> builds for a label: the day header has its own
  pattern, the two global captions match a prefix, every other label matches the whole
  text. Escaping makes each character of the label literal.
\<close>

definition labelMatches :: "string \<Rightarrow> string \<Rightarrow> bool" where
  "labelMatches v t =
     (if v = HEADER_DAY then matchesDayHeader t
      else if v = GLOBAL_DATE_RANGE_TEXT \<or> v = TABLING_DATE_TEXT
           then prefix (toLowerCase (trim v)) t
      else t = toLowerCase (trim v))"

text \<open>
  The test of one cell in \<^verbatim>\<open>findAllCellsByValue\<close>: a text cell that is not blank and
  whose trimmed, lower-cased text matches.
\<close>

definition cellMatches :: "string \<Rightarrow> cellValue option \<Rightarrow> bool" where
  "cellMatches v c =
     (case c of Some (CStr s) \<Rightarrow> trim s \<noteq> [] \<and> labelMatches v (toLowerCase (trim s))
      | _ \<Rightarrow> False)"

text \<open>A search range \<^verbatim>\<open>{s: {r, c}, e: {r, c}}\<close> is \<open>((r0, c0), (r1, c1))\<close>.\<close>

type_synonym range = "(int \<times> int) \<times> (int \<times> int)"

text \<open>
  The nested loops \<^verbatim>\<open>for (R = s.r; R <= e.r; ++R) for (C = s.c; C <= e.c; ++C)\<close> of both
  finders: the cells of the range that pass the test, row by row.
\<close>

definition scanRange :: "range \<Rightarrow> (int \<times> int \<Rightarrow> bool) \<Rightarrow> (int \<times> int) list" where
  "scanRange rg test =
     concat (map (\<lambda>R. concat (map (\<lambda>C. if test (R, C) then [(R, C)] else [])
                                      [snd (fst rg)..snd (snd rg)]))
                 [fst (fst rg)..fst (snd rg)])"

definition findAllCellsByValue :: "sheet \<Rightarrow> string \<Rightarrow> range \<Rightarrow> (int \<times> int) list" where
  "findAllCellsByValue sh v rg = scanRange rg (\<lambda>p. cellMatches v (cellAt sh p))"

text \<open>
  The test of one cell in \<^verbatim>\<open>findCellByValue\<close>, which is called with the labels
  \<^verbatim>\<open>Name\<close>, \<^verbatim>\<open>User ID\<close> and \<^verbatim>\<open>Dept.\<close>: none has a slash, so the pattern is the literal
  lower-cased label.
\<close>

definition cellEquals :: "string \<Rightarrow> cellValue option \<Rightarrow> bool" where
  "cellEquals v c =
     (case c of Some (CStr s) \<Rightarrow> toLowerCase (trim s) = toLowerCase (trim v) | _ \<Rightarrow> False)"

definition inRange :: "range \<Rightarrow> int \<times> int \<Rightarrow> bool" where
  "inRange rg p = (fst (fst rg) \<le> fst p \<and> fst p \<le> fst (snd rg)
                   \<and> snd (fst rg) \<le> snd p \<and> snd p \<le> snd (snd rg))"

text \<open>\<^verbatim>\<open>findCellByValue\<close>: merged ranges first, by their top-left corner, then every cell.\<close>

definition findCellByValue :: "sheet \<Rightarrow> string \<Rightarrow> range \<Rightarrow> (int \<times> int) option" where
  "findCellByValue sh v rg =
     (case filter (\<lambda>p. inRange rg p \<and> cellEquals v (cellAt sh p)) (merges sh) of
        p # _ \<Rightarrow> Some p
      | [] \<Rightarrow>
         (case scanRange rg (\<lambda>p. cellEquals v (cellAt sh p)) of
            p # _ \<Rightarrow> Some p
          | [] \<Rightarrow> None))"

section \<open>The block-format parser\<close>

text \<open>The cell right of a found header, \<^verbatim>\<open>String(sheet[...]?.v || "").trim()\<close>.\<close>

definition valueRightOf :: "sheet \<Rightarrow> (int \<times> int) option \<Rightarrow> string" where
  "valueRightOf sh loc =
     (case loc of None \<Rightarrow> [] | Some (r, c) \<Rightarrow> trim (cellText (cellAt sh (r, c + 1))))"

definition globalHeaderSearchRange :: "int \<times> int \<Rightarrow> range" where
  "globalHeaderSearchRange e = ((0, 0), (HEADER_SEARCH_END_ROW, snd e))"

definition findAttendanceDateRange :: "sheet \<Rightarrow> int \<times> int \<Rightarrow> string" where
  "findAttendanceDateRange sh e =
     (case findAllCellsByValue sh GLOBAL_DATE_RANGE_TEXT (globalHeaderSearchRange e) of
        [] \<Rightarrow> []
      | loc # _ \<Rightarrow> valueRightOf sh (Some loc))"

definition findTablingDate :: "platform \<Rightarrow> sheet \<Rightarrow> int \<times> int \<Rightarrow> string" where
  "findTablingDate pf sh e =
     (case findAllCellsByValue sh TABLING_DATE_TEXT (globalHeaderSearchRange e) of
        [] \<Rightarrow> []
      | (r, c) # _ \<Rightarrow>
          (case cellAt sh (r, c + 1) of
             Some (CNum n) \<Rightarrow> serialDateISO pf n
           | raw \<Rightarrow> trim (cellText raw)))"

text \<open>
  \<^verbatim>\<open>attendanceDateRange.match(/^(\d{4}-\d{2})-\d{2}~\d{4}-\d{2}-\d{2}$/)\<close>, the first
  group; else the current month.
\<close>

definition isDatePart :: "string \<Rightarrow> bool" where
  "isDatePart s =
     (length s = 10 \<and> list_all isDigit (take 4 s) \<and> s ! 4 = CHR ''-''
      \<and> list_all isDigit (take 2 (drop 5 s)) \<and> s ! 7 = CHR ''-''
      \<and> list_all isDigit (drop 8 s))"

definition reportMonthOf :: "platform \<Rightarrow> string \<Rightarrow> string" where
  "reportMonthOf pf attendanceRange =
     (if length attendanceRange = 21 \<and> isDatePart (take 10 attendanceRange)
         \<and> attendanceRange ! 10 = CHR ''~'' \<and> isDatePart (drop 11 attendanceRange)
      then take 7 attendanceRange
      else strInt (fst (currentMonth pf)) @ ''-'' @ padStart2 (strInt (snd (currentMonth pf))))"

text \<open>
  \<^verbatim>\<open>new Date(parseInt(month.split("-")[0]), parseInt(month.split("-")[1]), 0).getDate()\<close>.
\<close>

definition daysInMonth :: "string \<Rightarrow> int option" where
  "daysInMonth m = lastDayOfMonth (fst (monthParts m)) (snd (monthParts m))"

text \<open>
  The block spans: each sorted anchor column with the column before the next anchor,
  the last one with the sheet's last column (\<^verbatim>\<open>sheetFullRange.e.c + 1 - 1\<close>).
\<close>

fun blockSpans :: "int list \<Rightarrow> int \<Rightarrow> (int \<times> int) list" where
  "blockSpans [] lastCol = []"
| "blockSpans [c] lastCol = [(c, lastCol + 1 - 1)]"
| "blockSpans (c # c' # cs) lastCol = (c, c' - 1) # blockSpans (c' # cs) lastCol"

definition dayHeaderLocations :: "sheet \<Rightarrow> int \<times> int \<Rightarrow> (int \<times> int) list" where
  "dayHeaderLocations sh e =
     findAllCellsByValue sh HEADER_DAY ((HEADER_SEARCH_START_ROW, 0), (fst e, snd e))"

text \<open>\<^verbatim>\<open>Array.from(discoveredDayColumnIndices).sort((a, b) => a - b)\<close>.\<close>

definition sortedDayColumnIndices :: "sheet \<Rightarrow> int \<times> int \<Rightarrow> int list" where
  "sortedDayColumnIndices sh e = sort (remdups (map snd (dayHeaderLocations sh e)))"

definition discoverBlockSpans :: "sheet \<Rightarrow> int \<times> int \<Rightarrow> (int \<times> int) list" where
  "discoverBlockSpans sh e = blockSpans (sortedDayColumnIndices sh e) (snd e)"

definition maxDayHeaderRow :: "sheet \<Rightarrow> int \<times> int \<Rightarrow> int" where
  "maxDayHeaderRow sh e =
     foldl (\<lambda>m loc. if fst loc > m then fst loc else m) (- 1) (dayHeaderLocations sh e)"

definition blockHeaderSearchRange :: "int \<times> int \<Rightarrow> range" where
  "blockHeaderSearchRange blk =
     ((HEADER_SEARCH_START_ROW, fst blk), (HEADER_SEARCH_END_ROW, snd blk))"

definition blockName :: "sheet \<Rightarrow> int \<times> int \<Rightarrow> string" where
  "blockName sh blk =
     valueRightOf sh (findCellByValue sh HEADER_NAME (blockHeaderSearchRange blk))"

definition blockUserId :: "sheet \<Rightarrow> int \<times> int \<Rightarrow> string" where
  "blockUserId sh blk =
     valueRightOf sh (findCellByValue sh HEADER_USER_ID (blockHeaderSearchRange blk))"

definition blockDepartment :: "sheet \<Rightarrow> int \<times> int \<Rightarrow> string" where
  "blockDepartment sh blk =
     valueRightOf sh (findCellByValue sh HEADER_DEPARTMENT (blockHeaderSearchRange blk))"

text \<open>The first data row: one below the lowest \<^verbatim>\<open>In\<close> or \<^verbatim>\<open>Out\<close> sub-header, else two below the day headers.\<close>

definition timecardDataStartRow :: "sheet \<Rightarrow> int \<Rightarrow> int \<times> int \<Rightarrow> int" where
  "timecardDataStartRow sh maxRow blk =
     (let subHeaderSearchRange = ((maxRow, fst blk), (maxRow + 5, snd blk));
          allSubHeaders = findAllCellsByValue sh HEADER_IN subHeaderSearchRange
                          @ findAllCellsByValue sh HEADER_OUT subHeaderSearchRange
      in if allSubHeaders \<noteq> []
         then foldl (\<lambda>maxRow' cell. max maxRow' (fst cell)) (- 1) allSubHeaders + 1
         else maxRow + 2)"

text \<open>The day number of a day cell: the leading digits of its text, or the number itself.\<close>

definition dayOfCell :: "cellValue \<Rightarrow> int option" where
  "dayOfCell raw =
     (let s = (case raw of CStr t \<Rightarrow> t | CNum n \<Rightarrow> strInt n);
          ds = takeWhile isDigit s
      in if ds \<noteq> [] then Some (int (digitsVal ds))
         else (case raw of CNum n \<Rightarrow> Some n | CStr t \<Rightarrow> None))"

text \<open>A cell \<^verbatim>\<open>sheet[...]?.v\<close> is falsy when absent, the empty text or 0.\<close>

definition truthy :: "cellValue option \<Rightarrow> bool" where
  "truthy c = (case c of None \<Rightarrow> False | Some (CStr s) \<Rightarrow> s \<noteq> [] | Some (CNum n) \<Rightarrow> n \<noteq> 0)"

text \<open>
  The record of a data row, at the fixed offsets of \<^verbatim>\<open>RELATIVE_OFFSETS\<close> from the day
  column: AM_IN 1, AM_OUT 3, PM_IN 6, PM_OUT 8, OT_IN 10, OT_OUT 12, LATE 13,
  UNDERTIME 14, OVERTIME_HOURS 19, TOTAL_HOURS 20.
\<close>

definition rowRecord :: "sheet \<Rightarrow> int \<Rightarrow> int \<Rightarrow> rawRecord" where
  "rowRecord sh R dayColIndex =
     (let cellOff = (\<lambda>off. trim (cellText (cellAt sh (R, dayColIndex + off))))
      in \<lparr>am_arrival = cellOff 1, am_departure = cellOff 3, pm_arrival = cellOff 6,
          pm_departure = cellOff 8, ot_arrival = cellOff 10, ot_departure = cellOff 12,
          late_excel = cellOff 13, undertime_excel = cellOff 14,
          overtime_hours_excel = cellOff 19, total_hours_excel = cellOff 20\<rparr>)"

text \<open>
  The loop over the data rows: it stops at the first falsy day cell below the first
  data row, and records a row whose day is within the month.
\<close>

fun scanRows ::
  "sheet \<Rightarrow> int \<Rightarrow> string \<Rightarrow> int \<Rightarrow> int list \<Rightarrow> (int \<Rightarrow> rawRecord option) \<Rightarrow> (int \<Rightarrow> rawRecord option)" where
  "scanRows sh dayColIndex reportMonth startRow [] acc = acc"
| "scanRows sh dayColIndex reportMonth startRow (R # Rs) acc =
     (let dateWeekdayRaw = cellAt sh (R, dayColIndex)
      in if \<not> truthy dateWeekdayRaw \<and> R > startRow then acc
         else (let dayNo = (if truthy dateWeekdayRaw then dayOfCell (the dateWeekdayRaw) else None)
               in (case (dayNo, daysInMonth reportMonth) of
                     (Some d, Some n) \<Rightarrow>
                       if 1 \<le> d \<and> d \<le> n
                       then scanRows sh dayColIndex reportMonth startRow Rs
                              (acc(d \<mapsto> rowRecord sh R dayColIndex))
                       else scanRows sh dayColIndex reportMonth startRow Rs acc
                   | _ \<Rightarrow> scanRows sh dayColIndex reportMonth startRow Rs acc)))"

text \<open>The time-card entry of a day: the metrics of its record, or of \<^verbatim>\<open>{}\<close>.\<close>

definition blockEntry ::
  "platform \<Rightarrow> (int \<Rightarrow> rawRecord option) \<Rightarrow> int option \<Rightarrow> int option \<Rightarrow> int \<Rightarrow> timeCardEntry" where
  "blockEntry pf dailyExcelRecords year monthNum dayNo =
     (let excelRecord = (case dailyExcelRecords dayNo of Some r \<Rightarrow> r | None \<Rightarrow> emptyRecord);
          dailyMetrics = calculateDailyMetricsFromTimes (newDate pf) excelRecord year monthNum dayNo
      in metrics.extend dailyMetrics
           \<lparr>day = dayNo, dateWeekday = formatDateWeekday year monthNum dayNo\<rparr>)"

text \<open>What the blocks of one sheet share.\<close>

record blockContext =
  ctxSheet :: sheet
  ctxLast :: "int \<times> int"
  ctxRange :: string
  ctxTabling :: string
  ctxMonth :: string
  ctxMaxRow :: int

text \<open>The employee of an accepted block.\<close>

definition buildEmployee :: "platform \<Rightarrow> blockContext \<Rightarrow> int \<times> int \<Rightarrow> employee" where
  "buildEmployee pf ctx blk =
     (let sh = ctxSheet ctx;
          startRow = timecardDataStartRow sh (ctxMaxRow ctx) blk;
          dailyExcelRecords = scanRows sh (fst blk) (ctxMonth ctx) startRow
                                [startRow..fst (ctxLast ctx)] Map.empty;
          (year, monthNum) = monthParts (ctxMonth ctx)
      in \<lparr>userId = blockUserId sh blk, name = blockName sh blk,
          department = blockDepartment sh blk, month = ctxMonth ctx,
          attendanceDateRange = ctxRange ctx, tablingDate = ctxTabling ctx,
          timeCard = map (blockEntry pf dailyExcelRecords year monthNum)
                         (dayRange (lastDayOfMonth year monthNum))\<rparr>)"

text \<open>
  \<^verbatim>\<open>sortedDayColumnIndices.forEach(...)\<close>: a block without a name or a user id returns
  early, any other block pushes its employee.
\<close>

fun processBlocks :: "platform \<Rightarrow> blockContext \<Rightarrow> (int \<times> int) list \<Rightarrow> employee list \<Rightarrow> employee list" where
  "processBlocks pf ctx [] parsedEmployees = parsedEmployees"
| "processBlocks pf ctx (blk # blks) parsedEmployees =
     (if blockName (ctxSheet ctx) blk = [] \<or> blockUserId (ctxSheet ctx) blk = []
      then processBlocks pf ctx blks parsedEmployees
      else processBlocks pf ctx blks (parsedEmployees @ [buildEmployee pf ctx blk]))"

definition sheetContext :: "platform \<Rightarrow> sheet \<Rightarrow> int \<times> int \<Rightarrow> blockContext" where
  "sheetContext pf sh e =
     \<lparr>ctxSheet = sh, ctxLast = e,
      ctxRange = findAttendanceDateRange sh e,
      ctxTabling = findTablingDate pf sh e,
      ctxMonth = reportMonthOf pf (findAttendanceDateRange sh e),
      ctxMaxRow = maxDayHeaderRow sh e\<rparr>"

text \<open>
  \<^verbatim>\<open>parseSingleEmployeeAttendanceSheet\<close>. \<open>None\<close> is the exception of
  \<^verbatim>\<open>decode_range(sheet["!ref"])\<close> on a sheet without a range.
\<close>

definition parseSingleEmployeeAttendanceSheet :: "platform \<Rightarrow> sheet \<Rightarrow> employee list option" where
  "parseSingleEmployeeAttendanceSheet pf sh =
     (case sheetRef sh of
        None \<Rightarrow> None
      | Some e \<Rightarrow>
          if dayHeaderLocations sh e = [] then Some []
          else Some (processBlocks pf (sheetContext pf sh e) (discoverBlockSpans sh e) []))"

section \<open>The time summary of the attendance controller\<close>

text \<open>
  \<^verbatim>\<open>calculateDailyMetricsFromTimes\<close> as attendanceController.js has it: the six time
  texts and the precomputed cells, nothing recomputed. It returns the undertime numbers
  as numbers; they are written as texts here.
\<close>

definition controllerDailyMetrics :: "rawRecord \<Rightarrow> metrics" where
  "controllerDailyMetrics record =
     (let (ut_h, ut_m) = precomputedUndertime (undertime_excel record)
      in \<lparr>am_arrival = am_arrival record, am_departure = am_departure record,
          pm_arrival = pm_arrival record, pm_departure = pm_departure record,
          ot_arrival = ot_arrival record, ot_departure = ot_departure record,
          total_hours = total_hours_excel record, late = late_excel record, early_out = [],
          overtime = overtime_hours_excel record, remarks = [],
          undertime_hours = uString ut_h, undertime_minutes = uString ut_m\<rparr>)"

record timeSummaryResult =
  timeSummary :: "timeCardEntry list"
  summaryDays :: "int option"

text \<open>
  \<^verbatim>\<open>calculateEmployeeTimeSummary(employee, month)\<close>: the employee is \<open>None\<close> for
  \<^verbatim>\<open>null\<close>, else its time card as records with their day; the \<^verbatim>\<open>Map\<close> keeps the last
  record of a day.
\<close>

definition calculateEmployeeTimeSummary ::
  "(int \<times> rawRecord) list option \<Rightarrow> string \<Rightarrow> timeSummaryResult" where
  "calculateEmployeeTimeSummary emp m =
     (case emp of
        None \<Rightarrow> \<lparr>timeSummary = [], summaryDays = Some 0\<rparr>
      | Some tcard \<Rightarrow>
          if m = [] then \<lparr>timeSummary = [], summaryDays = Some 0\<rparr>
          else
            (let (year, monthNum) = monthParts m;
                 days = lastDayOfMonth year monthNum;
                 dailyRecordMap = map_of (rev tcard)
             in \<lparr>timeSummary =
                   map (\<lambda>dayNo.
                          metrics.extend
                            (controllerDailyMetrics
                               (case dailyRecordMap dayNo of Some r \<Rightarrow> r | None \<Rightarrow> emptyRecord))
                            \<lparr>day = dayNo, dateWeekday = formatDateWeekday year monthNum dayNo\<rparr>)
                       (dayRange days),
                 summaryDays = days\<rparr>))"

section \<open>The store\<close>

text \<open>
  The two tables. A row of \<open>employees\<close> has its key \<open>id\<close> and the six columns; a row of
  \<open>time_records\<close> has the id of its employee and the fifteen columns of a time-card
  entry (its own key is never read, and the list keeps the insertion order).
  \<open>nextEmployeeId\<close> is the next \<^verbatim>\<open>AUTOINCREMENT\<close> key of \<open>employees\<close>.
\<close>

record employeeRow =
  rowId :: nat
  rowUserId :: string
  rowEmpName :: string
  rowDepartment :: string
  rowMonth :: string
  rowDateRange :: string
  rowTabling :: string

record timeRecordRow =
  employee_id :: nat
  entry :: timeCardEntry

record database =
  employees :: "employeeRow list"
  time_records :: "timeRecordRow list"
  nextEmployeeId :: nat

text \<open>\<^verbatim>\<open>SELECT id FROM employees WHERE userId = ? AND name = ? AND month = ?\<close>, the first row.\<close>

definition hasKey :: "employee \<Rightarrow> employeeRow \<Rightarrow> bool" where
  "hasKey emp r = (rowUserId r = userId emp \<and> rowEmpName r = name emp \<and> rowMonth r = month emp)"

definition existingEmployee :: "database \<Rightarrow> employee \<Rightarrow> employeeRow option" where
  "existingEmployee db emp = find (hasKey emp) (employees db)"

text \<open>The rows inserted for a time card: one for each entry with a non-empty time text.\<close>

definition timeRows :: "nat \<Rightarrow> timeCardEntry list \<Rightarrow> timeRecordRow list" where
  "timeRows employeeId tcard =
     map (\<lambda>r. \<lparr>employee_id = employeeId, entry = r\<rparr>) (filter hasActualWorkEntries tcard)"

text \<open>
  One iteration of the loop in the transaction: update or insert the employee row,
  delete the time records of that id, insert the rows of the time card.
\<close>

definition persistEmployee :: "database \<Rightarrow> employee \<Rightarrow> database" where
  "persistEmployee db emp =
     (case existingEmployee db emp of
        Some r \<Rightarrow>
          db\<lparr>employees :=
               map (\<lambda>x. if rowId x = rowId r
                         then x\<lparr>rowDepartment := department emp,
                                rowDateRange := attendanceDateRange emp,
                                rowTabling := tablingDate emp\<rparr>
                         else x) (employees db),
             time_records :=
               filter (\<lambda>t. employee_id t \<noteq> rowId r) (time_records db)
               @ timeRows (rowId r) (timeCard emp)\<rparr>
      | None \<Rightarrow>
          db\<lparr>employees :=
               employees db @
               [\<lparr>rowId = nextEmployeeId db, rowUserId = userId emp, rowEmpName = name emp,
                 rowDepartment = department emp, rowMonth = month emp,
                 rowDateRange = attendanceDateRange emp, rowTabling = tablingDate emp\<rparr>],
             time_records :=
               filter (\<lambda>t. employee_id t \<noteq> nextEmployeeId db) (time_records db)
               @ timeRows (nextEmployeeId db) (timeCard emp),
             nextEmployeeId := Suc (nextEmployeeId db)\<rparr>)"


section \<open>Format detection and the load\<close>

text \<open>
  The header row \<^verbatim>\<open>sheet_to_json(sheet, {header: 1, range: "A1:Z1", raw: false})[0]\<close>:
  the texts of row 1 in columns A to Z; the library returns no row for a sheet without
  a range.
\<close>

definition headerRow :: "sheet \<Rightarrow> string list" where
  "headerRow sh =
     (case sheetRef sh of
        None \<Rightarrow> []
      | Some e \<Rightarrow> map (\<lambda>C. toLowerCase (trim (cellText (cellAt sh (0, C))))) [0..25])"

definition requiredSimpleHeaders :: "string list" where
  "requiredSimpleHeaders = [''name'', ''date'', ''timetable'', ''clock in'', ''clock out'']"

definition isSimpleBiometricFormat :: "sheet \<Rightarrow> bool" where
  "isSimpleBiometricFormat sh =
     list_all (\<lambda>reqHeader. reqHeader \<in> set (headerRow sh)) requiredSimpleHeaders"

text \<open>The block-format loop over at most 20 sheets; an exception leaves it.\<close>

fun parseSheets :: "platform \<Rightarrow> sheet list \<Rightarrow> employee list option" where
  "parseSheets pf [] = Some []"
| "parseSheets pf (sh # shs) =
     (case parseSingleEmployeeAttendanceSheet pf sh of
        None \<Rightarrow> None
      | Some parsedDataFromSheet \<Rightarrow>
          (case parseSheets pf shs of
             None \<Rightarrow> None
           | Some others \<Rightarrow> Some (parsedDataFromSheet @ others)))"

text \<open>
  The parsing half of \<^verbatim>\<open>loadMultiSheetEmployeeAttendance\<close>: a workbook is the list of
  its sheets. \<open>None\<close> is an exception, or a workbook without a sheet: both leave the
  store as it is.
\<close>

definition parseWorkbook :: "platform \<Rightarrow> sheet list \<Rightarrow> employee list option" where
  "parseWorkbook pf workbook =
     (case workbook of
        [] \<Rightarrow> None
      | firstSheet # _ \<Rightarrow>
          if isSimpleBiometricFormat firstSheet
          then Some (parseSimpleBiometric pf (sheetRows pf firstSheet))
          else parseSheets pf (take 20 workbook))"


section \<open>Reading the store back\<close>

text \<open>
  \<^verbatim>\<open>name LIKE ? COLLATE NOCASE\<close>: \<^verbatim>\<open>%\<close> matches any run of characters, \<^verbatim>\<open>_\<close> any one
  character, letters without regard to case.
\<close>

fun sqlLike :: "string \<Rightarrow> string \<Rightarrow> bool" where
  "sqlLike [] s = (s = [])"
| "sqlLike (p # ps) [] = (p = CHR ''%'' \<and> sqlLike ps [])"
| "sqlLike (p # ps) (c # cs) =
     (if p = CHR ''%'' then sqlLike ps (c # cs) \<or> sqlLike (p # ps) cs
      else (p = CHR ''_'' \<or> lowerChar p = lowerChar c) \<and> sqlLike ps cs)"

definition selectEmployees :: "database \<Rightarrow> string \<Rightarrow> string \<Rightarrow> employeeRow list" where
  "selectEmployees db nameQuery monthQuery =
     filter (\<lambda>r. (nameQuery = [] \<or> sqlLike (''%'' @ nameQuery @ ''%'') (rowEmpName r))
                  \<and> (monthQuery = [] \<or> rowMonth r = monthQuery))
            (employees db)"

text \<open>The entry \<^verbatim>\<open>getEmployeeDataFromDb\<close> makes up for a day without a stored row.\<close>

definition defaultEntry :: "int option \<Rightarrow> int option \<Rightarrow> int \<Rightarrow> timeCardEntry" where
  "defaultEntry year monthNum dayNo =
     (let dow = getDay year (map_option (\<lambda>m. m - 1) monthNum) dayNo;
          isWeekend = (dow = Some 0 \<or> dow = Some 6)
      in \<lparr>am_arrival = [], am_departure = [], pm_arrival = [], pm_departure = [],
          ot_arrival = [], ot_departure = [], total_hours = [], late = [], early_out = [],
          overtime = [], remarks = [],
          undertime_hours = (if isWeekend then weekdayLong dow else []),
          undertime_minutes = (if isWeekend then weekdayLong dow else []),
          day = dayNo,
          dateWeekday = padStart2 (strInt dayNo) @ '' '' @ weekdayShort dow\<rparr>)"

text \<open>
  \<^verbatim>\<open>formDataForDisplay\<close> of one employee row, as the list of its days in order: the
  stored row of the day (the last one in \<^verbatim>\<open>ORDER BY day ASC\<close>) or the default entry.
\<close>

definition displayDays :: "string \<Rightarrow> int option" where
  "displayDays m =
     (case monthParts m of
        (Some y, Some mn) \<Rightarrow> if 1 \<le> mn \<and> mn \<le> 12 then lastDayOfMonth (Some y) (Some mn) else Some 31
      | _ \<Rightarrow> Some 31)"

definition formDataForDisplay :: "database \<Rightarrow> employeeRow \<Rightarrow> (int \<times> timeCardEntry) list" where
  "formDataForDisplay db emp =
     (let timeCards = sort_key day (map entry (filter (\<lambda>t. employee_id t = rowId emp) (time_records db)));
          dailyRecordMap = map_of (rev (map (\<lambda>r. (day r, r)) timeCards));
          (year, monthNum) = monthParts (rowMonth emp)
      in map (\<lambda>dayNo. (dayNo, (case dailyRecordMap dayNo of
                                   Some r \<Rightarrow> r
                                 | None \<Rightarrow> defaultEntry year monthNum dayNo)))
             (dayRange (displayDays (rowMonth emp))))"

record employeeResult =
  empId :: string
  empName :: string
  resDepartment :: string
  months :: "string list"
  formData :: "(string \<times> (int \<times> timeCardEntry) list) list"
  resDateRange :: string
  resTabling :: string

definition getEmployeeDataFromDb :: "database \<Rightarrow> string \<Rightarrow> string \<Rightarrow> employeeResult list" where
  "getEmployeeDataFromDb db nameQuery monthQuery =
     map (\<lambda>emp. \<lparr>empId = rowUserId emp, empName = rowEmpName emp,
                  resDepartment = rowDepartment emp, months = [rowMonth emp],
                  formData = [(rowMonth emp, formDataForDisplay db emp)],
                  resDateRange = rowDateRange emp, resTabling = rowTabling emp\<rparr>)
         (selectEmployees db nameQuery monthQuery)"

text \<open>A platform for the witnesses: the clock parser, and April 2025 as the current month.\<close>

definition demoPlatform :: platform where
  "demoPlatform = \<lparr>newDate = clockParse, newDateFields = (\<lambda>t. None), currentMonth = (2025, 4),
     sheetRows = (\<lambda>sh. []), serialDateISO = (\<lambda>n. [])\<rparr>"

section \<open>Specification-side notions for the calculator claims\<close>

text \<open>
  The worked time of one in/out pair in whole milliseconds, as the specification words
  it: the pair counts only when both texts parse and the departure is after the arrival.
\<close>

definition workedMillis :: "int option \<Rightarrow> int option \<Rightarrow> int" where
  "workedMillis inTime outTime =
     (case (inTime, outTime) of
        (Some i, Some out) \<Rightarrow> if out > i then out - i else 0
      | _ \<Rightarrow> 0)"



text \<open>A result with its remarks blanked, to compare two results on every other field.\<close>

definition withoutRemarks :: "metrics \<Rightarrow> metrics" where
  "withoutRemarks m = m\<lparr>remarks := []\<rparr>"


definition lateMorning :: rawRecord where
  "lateMorning = emptyRecord\<lparr>am_arrival := ''08:15'', am_departure := ''12:00''\<rparr>"

definition allPrecomputed :: rawRecord where
  "allPrecomputed = lateMorning\<lparr>late_excel := ''0h 05m'', undertime_excel := ''0:30'',
     overtime_hours_excel := ''1h 00m'', total_hours_excel := ''9h 00m''\<rparr>"

text \<open>What every employee of the simple-format parser satisfies (for the proofs).\<close>

definition simpleShape :: "employee \<Rightarrow> bool" where
  "simpleShape e = (userId e = name e \<and> department e = [] \<and> attendanceDateRange e = []
     \<and> tablingDate e = [] \<and> map day (timeCard e) = [1..31])"

text \<open>A month text \<^verbatim>\<open>YYYY-MM\<close>: four digits, a hyphen, two digits.\<close>

definition isMonthString :: "string \<Rightarrow> bool" where
  "isMonthString m =
     (case m of
        [a, b, c, d, h, e, f] \<Rightarrow>
          isDigit a \<and> isDigit b \<and> isDigit c \<and> isDigit d \<and> h = CHR ''-'' \<and> isDigit e \<and> isDigit f
      | _ \<Rightarrow> False)"

text \<open>\<^verbatim>\<open>columnLetterToNumber\<close>: the zero-based index of a column letter.\<close>

definition columnLetterToNumber :: "string \<Rightarrow> int" where
  "columnLetterToNumber colLetter =
     foldl (\<lambda>col c. col * 26 + (int (of_char c) - 65 + 1)) 0 colLetter - 1"

text \<open>A flat row: Ana, 10 April 2025, the morning session.\<close>

definition anaRow :: simpleRow where
  "anaRow = \<lparr>rowName = ''Ana'', rowDate = DateText ''10/04/2025'', rowTimetable = ''AM'',
     rowClockIn = ''08:00'', rowClockOut = ''12:00''\<rparr>"

text \<open>
  A sheet with the day header in the columns B, Q and AF of its first row and nothing
  else, and a sheet with two blocks: the first has a name and a user id, the second has
  neither.
\<close>

definition threeBlockSheet :: sheet where
  "threeBlockSheet =
     \<lparr>cellAt = (\<lambda>p. if p = (0, 1) \<or> p = (0, 16) \<or> p = (0, 31) then Some (CStr ''Date'') else None),
      sheetRef = Some (1, 45), merges = []\<rparr>"

definition twoBlockSheet :: sheet where
  "twoBlockSheet =
     \<lparr>cellAt = (\<lambda>p. if p = (0, 0) then Some (CStr ''Name'')
                    else if p = (0, 1) then Some (CStr ''Ana'')
                    else if p = (1, 0) then Some (CStr ''User ID'')
                    else if p = (1, 1) then Some (CNum 7)
                    else if p = (2, 0) \<or> p = (2, 5) then Some (CStr ''Date/Weekday'')
                    else None),
      sheetRef = Some (3, 9), merges = []\<rparr>"

text \<open>
  Two flat-looking sheets: the first has the five headers in some order and case, the
  second lacks the timetable header.
\<close>

definition simpleSheet :: sheet where
  "simpleSheet =
     \<lparr>cellAt = (\<lambda>p. if p = (0, 0) then Some (CStr ''Clock Out'')
                    else if p = (0, 1) then Some (CStr ''Name'')
                    else if p = (0, 2) then Some (CStr '' Date '')
                    else if p = (0, 3) then Some (CStr ''TIMETABLE'')
                    else if p = (0, 4) then Some (CStr ''Clock In'')
                    else None),
      sheetRef = Some (1, 4), merges = []\<rparr>"

definition noTimetableSheet :: sheet where
  "noTimetableSheet =
     \<lparr>cellAt = (\<lambda>p. if p = (0, 0) then Some (CStr ''Clock Out'')
                    else if p = (0, 1) then Some (CStr ''Name'')
                    else if p = (0, 2) then Some (CStr '' Date '')
                    else if p = (0, 4) then Some (CStr ''Clock In'')
                    else None),
      sheetRef = Some (1, 4), merges = []\<rparr>"

text \<open>The key of an employee row and of a parsed employee, and the well-formed stores:
  the primary key \<open>id\<close> and the \<^verbatim>\<open>UNIQUE(userId, name, month)\<close> constraint hold, and
  every id is below the next key.\<close>

definition rowKey :: "employeeRow \<Rightarrow> string \<times> string \<times> string" where
  "rowKey r = (rowUserId r, rowEmpName r, rowMonth r)"

definition empKey :: "employee \<Rightarrow> string \<times> string \<times> string" where
  "empKey e = (userId e, name e, month e)"


text \<open>The id an employee is stored under: that of its row, or the next key.\<close>

definition idFor :: "database \<Rightarrow> employee \<Rightarrow> nat" where
  "idFor db e = (case existingEmployee db e of Some r \<Rightarrow> rowId r | None \<Rightarrow> nextEmployeeId db)"






text \<open>
  The pieces of one persisting step, named for the proofs: the \<^verbatim>\<open>UPDATE\<close> of the rows
  with an id, the row of an \<^verbatim>\<open>INSERT\<close>, the \<^verbatim>\<open>DELETE\<close> of the time records of an
  id followed by the inserts, the ids a load works under, one employee after the other,
  and whether every employee of a load is found in the store when its turn comes.
\<close>

definition setData :: "employee \<Rightarrow> employeeRow \<Rightarrow> employeeRow" where
  "setData e x = x\<lparr>rowDepartment := department e, rowDateRange := attendanceDateRange e,
     rowTabling := tablingDate e\<rparr>"

definition updateRow :: "nat \<times> employee \<Rightarrow> employeeRow \<Rightarrow> employeeRow" where
  "updateRow op x = (if rowId x = fst op then setData (snd op) x else x)"

definition applyOps :: "(nat \<times> employee) list \<Rightarrow> employeeRow \<Rightarrow> employeeRow" where
  "applyOps ops x = foldl (\<lambda>y op. updateRow op y) x ops"

definition newRow :: "nat \<Rightarrow> employee \<Rightarrow> employeeRow" where
  "newRow i e = \<lparr>rowId = i, rowUserId = userId e, rowEmpName = name e,
     rowDepartment = department e, rowMonth = month e,
     rowDateRange = attendanceDateRange e, rowTabling = tablingDate e\<rparr>"

definition keyId :: "employeeRow \<Rightarrow> (string \<times> string \<times> string) \<times> nat" where
  "keyId r = (rowKey r, rowId r)"


fun idsSeq :: "database \<Rightarrow> employee list \<Rightarrow> nat list" where
  "idsSeq db [] = []"
| "idsSeq db (e # es) = idFor db e # idsSeq (persistEmployee db e) es"




section \<open>Properties\<close>

subsection \<open>Evaluation of the helpers\<close>

lemmas calcBlock_expand = calculateDailyMetricsFromTimes_def [unfolded Let_def case_prod_beta]
lemmas str_eval = numStr_def strInt_def strNat.simps padStart2_def formatHM_def
lemmas clock_eval = clockParse_def isDigit_def digitsVal_def digitVal_def MakeDay_def
  DayFromYear_def monthOffset_def InLeapYear_def
lemmas day_eval = getDay_def MakeDay_def DayFromYear_def monthOffset_def InLeapYear_def fullYear_def

lemma april_first: "dateStringOf (Some 2025) (Some 4) 1 = ''2025-04-01''"
  by (simp add: dateStringOf_def str_eval)

lemma april_fifth: "dateStringOf (Some 2025) (Some 4) 5 = ''2025-04-05''"
  by (simp add: dateStringOf_def str_eval)

lemma clock_0800: "clockParse ''2025-04-01 08:00'' = Some (29058240 * 60000)"
  by (simp add: clock_eval)

lemma clock_0815: "clockParse ''2025-04-01 08:15'' = Some (29058255 * 60000)"
  by (simp add: clock_eval)

lemma clock_1200: "clockParse ''2025-04-01 12:00'' = Some (29058480 * 60000)"
  by (simp add: clock_eval)


lemma clock_1700: "clockParse ''2025-04-01 17:00'' = Some (29058780 * 60000)"
  by (simp add: clock_eval)



lemma tuesday_april_first: "getDay (Some 2025) (Some 3) 1 = Some 2"
  by (simp add: day_eval)

lemma precomputedUndertime_empty [simp]: "precomputedUndertime [] = (UStr [], UStr [])"
  by (simp add: precomputedUndertime_def)

lemma uString_UStr [simp]: "uString (UStr s) = s"
  by (simp add: uString_def)

subsection \<open>Durations in whole milliseconds\<close>


lemma pairDuration_minutes:
  "pairDuration a b (1000 * 60) = of_int (workedMillis a b) / 60000"
  by (simp add: pairDuration_def workedMillis_def split: option.splits)

lemma workedMillis_nonneg: "0 \<le> workedMillis a b"
  by (simp add: workedMillis_def split: option.splits)

lemma floor_hours: "\<lfloor>(of_int e :: rat) / 3600000\<rfloor> = e div 3600000"
  using floor_divide_of_int_eq [of e 3600000, where ?'a = rat] by simp





subsection \<open>The weekend undertime label\<close>






subsection \<open>Overtime\<close>










subsection \<open>Undertime of a worked day, in whole milliseconds\<close>

lemma floor_minutes_hours: "\<lfloor>(of_int e :: rat) / 60000 / 60\<rfloor> = e div 3600000"
  using floor_divide_of_int_eq [of e 3600000, where ?'a = rat] by simp

lemma round_minutes_of_minutes:
  assumes "0 \<le> e"
  shows "mathRound (jsRem ((of_int e :: rat) / 60000) 60) = (e mod 3600000 + 30000) div 60000"
proof -
  have nn: "0 \<le> (of_int e :: rat) / 60000 / 60" using assms by simp
  have "jsRem ((of_int e :: rat) / 60000) 60 = of_int e / 60000 - 60 * of_int (e div 3600000)"
    using nn by (simp only: jsRem_def floor_minutes_hours if_True)
  also have "\<dots> = of_int (e mod 3600000) / 60000"
  proof -
    have "e = 3600000 * (e div 3600000) + e mod 3600000" by simp
    then have "(of_int e :: rat) = 3600000 * of_int (e div 3600000) + of_int (e mod 3600000)"
      by (metis of_int_add of_int_mult of_int_numeral)
    then show ?thesis by (simp add: field_simps)
  qed
  finally have "jsRem ((of_int e :: rat) / 60000) 60 + 1 / 2
      = of_int (e mod 3600000 + 30000) / of_int 60000"
    by (simp add: field_simps)
  then show ?thesis
    unfolding mathRound_def by (simp only: floor_divide_of_int_eq)
qed

lemma workedUndertime_eval:
  "workedUndertime a b c d =
     (let e = 28800000 - (workedMillis a b + workedMillis c d)
      in if 0 < e then (UNum (e div 3600000), UNum ((e mod 3600000 + 30000) div 60000))
         else (UStr [], UStr []))"
proof -
  define e where "e = 28800000 - (workedMillis a b + workedMillis c d)"
  have m: "480 - ((of_int (workedMillis a b) :: rat) / 60000 + of_int (workedMillis c d) / 60000)
             = of_int e / 60000"
    by (simp add: e_def field_simps)
  have p: "(0 < (of_int e :: rat) / 60000) = (0 < e)" by simp
  have x: "max ((of_int e :: rat) / 60000) 0 = (if 0 < e then of_int e / 60000 else 0)"
    by (simp add: max_def)
  show ?thesis
    unfolding workedUndertime_def pairDuration_minutes Let_def m x e_def [symmetric]
    by (simp add: floor_minutes_hours floor_hours round_minutes_of_minutes)
qed

subsection \<open>Precomputed fields\<close>

lemma lateStep_given: "late0 \<noteq> [] \<Longrightarrow> lateStep late0 r a s = (late0, r)"
  by (simp add: lateStep_def split: option.splits)

lemma overtimeStep_given: "overtime0 \<noteq> [] \<Longrightarrow> overtimeStep overtime0 r tw ot = (overtime0, r)"
  by (simp add: overtimeStep_def)

lemma totalHoursStep_given: "totalHours0 \<noteq> [] \<Longrightarrow> totalHoursStep totalHours0 h tw ot = totalHours0"
  by (simp add: totalHoursStep_def)

lemma fst_earlyOutStep: "fst (earlyOutStep r a b) = fst (earlyOutStep [] a b)"
  by (simp add: earlyOutStep_def Let_def split: option.splits)

lemma fst_overtimeStep: "fst (overtimeStep overtime0 r tw ot) = fst (overtimeStep overtime0 [] tw ot)"
  by (simp add: overtimeStep_def Let_def)

lemma fst_earlyOutStep_late:
  "fst (earlyOutStep (snd (lateStep l r0 a s)) b c) = fst (earlyOutStep [] b c)"
  by (rule fst_earlyOutStep)

lemma fst_overtimeStep_early:
  "fst (overtimeStep overtime0 (snd (earlyOutStep r b c)) tw ot) = fst (overtimeStep overtime0 [] tw ot)"
  by (rule fst_overtimeStep)

lemmas given_simps = fst_earlyOutStep_late fst_overtimeStep_early hasActualWorkEntries_def

lemma matchHM_nonempty: "matchHM s = Some (h, m) \<Longrightarrow> s \<noteq> []"
  by (auto simp: matchHM_def Let_def split: if_splits)

lemma precomputedUndertime_match:
  "matchHM s = Some (h, m) \<Longrightarrow>
   precomputedUndertime s = (UNum (int (digitsVal h)), UNum (int (digitsVal m)))"
  by (frule matchHM_nonempty) (simp add: precomputedUndertime_def)

lemma precomputedUndertime_unmatched:
  "matchHM s = None \<Longrightarrow> precomputedUndertime s = (UStr [], UStr [])"
  by (simp add: precomputedUndertime_def)

lemma late_given:
  assumes "late_excel r \<noteq> []"
  shows "late (calculateDailyMetricsFromTimes parseDate r year monthNum dayNo) = late_excel r"
    and "withoutRemarks (calculateDailyMetricsFromTimes parseDate r year monthNum dayNo)
    = withoutRemarks ((calculateDailyMetricsFromTimes parseDate (r\<lparr>late_excel := []\<rparr>) year monthNum dayNo)
        \<lparr>late := late_excel r\<rparr>)"
  unfolding withoutRemarks_def
  by (simp_all only: calcBlock_expand)
     (simp_all add: lateStep_given [OF assms] given_simps split del: if_split cong: if_cong)

lemma overtime_given:
  assumes "overtime_hours_excel r \<noteq> []"
  shows "overtime (calculateDailyMetricsFromTimes parseDate r year monthNum dayNo)
           = overtime_hours_excel r"
    and "withoutRemarks (calculateDailyMetricsFromTimes parseDate r year monthNum dayNo)
    = withoutRemarks ((calculateDailyMetricsFromTimes parseDate (r\<lparr>overtime_hours_excel := []\<rparr>) year monthNum dayNo)
        \<lparr>overtime := overtime_hours_excel r\<rparr>)"
  unfolding withoutRemarks_def
  by (simp_all only: calcBlock_expand)
     (simp_all add: overtimeStep_given [OF assms] given_simps split del: if_split cong: if_cong)

lemma total_given:
  assumes "total_hours_excel r \<noteq> []"
  shows "total_hours (calculateDailyMetricsFromTimes parseDate r year monthNum dayNo)
           = total_hours_excel r"
    and "calculateDailyMetricsFromTimes parseDate r year monthNum dayNo
    = (calculateDailyMetricsFromTimes parseDate (r\<lparr>total_hours_excel := []\<rparr>) year monthNum dayNo)
        \<lparr>total_hours := total_hours_excel r\<rparr>"
  by (simp_all only: calcBlock_expand)
     (simp_all add: totalHoursStep_given [OF assms] given_simps split del: if_split cong: if_cong)

lemma undertime_given:
  assumes "matchHM (undertime_excel r) = Some (h, m)"
  shows "undertime_hours (calculateDailyMetricsFromTimes parseDate r year monthNum dayNo)
           = strNat (digitsVal h)"
    and "undertime_minutes (calculateDailyMetricsFromTimes parseDate r year monthNum dayNo)
           = strNat (digitsVal m)"
    and "calculateDailyMetricsFromTimes parseDate r year monthNum dayNo
    = (calculateDailyMetricsFromTimes parseDate (r\<lparr>undertime_excel := []\<rparr>) year monthNum dayNo)
        \<lparr>undertime_hours := strNat (digitsVal h), undertime_minutes := strNat (digitsVal m)\<rparr>"
  by (simp_all only: calcBlock_expand)
     (simp_all add: precomputedUndertime_match [OF assms] uString_def strInt_def given_simps
        split del: if_split cong: if_cong)

lemma undertime_unmatched:
  assumes "matchHM (undertime_excel r) = None"
  shows "calculateDailyMetricsFromTimes parseDate r year monthNum dayNo
    = calculateDailyMetricsFromTimes parseDate (r\<lparr>undertime_excel := []\<rparr>) year monthNum dayNo"
  by (simp only: calcBlock_expand)
     (simp add: precomputedUndertime_unmatched [OF assms] given_simps
        split del: if_split cong: if_cong)

text \<open>
  C4, as amended. In the calculator of the block-format path: a non-empty precomputed
  late, overtime or total-hours text is returned as that field and the field is not
  recomputed; a precomputed undertime text of the form digits, colon, digits is returned
  as its two numbers in \<open>undertime_hours\<close> and \<open>undertime_minutes\<close>, and any other
  undertime text is ignored (undertime is then recomputed). In each case every other
  field of the result, the remarks apart, is what the calculator returns for the same
  record without that precomputed text.
\<close>

theorem precomputed_fields_take_precedence:
  "(late_excel r \<noteq> [] \<longrightarrow>
      late (calculateDailyMetricsFromTimes parseDate r year monthNum dayNo) = late_excel r
      \<and> withoutRemarks (calculateDailyMetricsFromTimes parseDate r year monthNum dayNo)
          = withoutRemarks ((calculateDailyMetricsFromTimes parseDate (r\<lparr>late_excel := []\<rparr>)
                               year monthNum dayNo)\<lparr>late := late_excel r\<rparr>))
   \<and> (overtime_hours_excel r \<noteq> [] \<longrightarrow>
      overtime (calculateDailyMetricsFromTimes parseDate r year monthNum dayNo)
        = overtime_hours_excel r
      \<and> withoutRemarks (calculateDailyMetricsFromTimes parseDate r year monthNum dayNo)
          = withoutRemarks ((calculateDailyMetricsFromTimes parseDate
                               (r\<lparr>overtime_hours_excel := []\<rparr>) year monthNum dayNo)
                             \<lparr>overtime := overtime_hours_excel r\<rparr>))
   \<and> (total_hours_excel r \<noteq> [] \<longrightarrow>
      total_hours (calculateDailyMetricsFromTimes parseDate r year monthNum dayNo)
        = total_hours_excel r
      \<and> calculateDailyMetricsFromTimes parseDate r year monthNum dayNo
          = (calculateDailyMetricsFromTimes parseDate (r\<lparr>total_hours_excel := []\<rparr>)
               year monthNum dayNo)\<lparr>total_hours := total_hours_excel r\<rparr>)
   \<and> (\<forall>h m. matchHM (undertime_excel r) = Some (h, m) \<longrightarrow>
      undertime_hours (calculateDailyMetricsFromTimes parseDate r year monthNum dayNo)
        = strNat (digitsVal h)
      \<and> undertime_minutes (calculateDailyMetricsFromTimes parseDate r year monthNum dayNo)
        = strNat (digitsVal m)
      \<and> calculateDailyMetricsFromTimes parseDate r year monthNum dayNo
          = (calculateDailyMetricsFromTimes parseDate (r\<lparr>undertime_excel := []\<rparr>)
               year monthNum dayNo)
             \<lparr>undertime_hours := strNat (digitsVal h), undertime_minutes := strNat (digitsVal m)\<rparr>)
   \<and> (matchHM (undertime_excel r) = None \<longrightarrow>
      calculateDailyMetricsFromTimes parseDate r year monthNum dayNo
        = calculateDailyMetricsFromTimes parseDate (r\<lparr>undertime_excel := []\<rparr>)
            year monthNum dayNo)"
  using late_given [of r parseDate year monthNum dayNo]
    overtime_given [of r parseDate year monthNum dayNo]
    total_given [of r parseDate year monthNum dayNo]
    undertime_given [of r _ _ parseDate year monthNum dayNo]
    undertime_unmatched [of r parseDate year monthNum dayNo]
  by blast

lemma allPrecomputed_fields:
  "late_excel allPrecomputed = ''0h 05m''" "overtime_hours_excel allPrecomputed = ''1h 00m''"
  "total_hours_excel allPrecomputed = ''9h 00m''" "undertime_excel allPrecomputed = ''0:30''"
  by (simp_all add: allPrecomputed_def lateMorning_def emptyRecord_def)

lemma matchHM_half_hour: "matchHM ''0:30'' = Some (''0'', ''30'')"
  by (simp add: matchHM_def isDigit_def Let_def)

theorem precomputed_fields_take_precedence_witness:
  "late_excel allPrecomputed \<noteq> [] \<and> overtime_hours_excel allPrecomputed \<noteq> []
   \<and> total_hours_excel allPrecomputed \<noteq> []
   \<and> matchHM (undertime_excel allPrecomputed) = Some (''0'', ''30'')
   \<and> matchHM (undertime_excel lateMorning) = None
   \<and> late (calculateDailyMetricsFromTimes clockParse allPrecomputed (Some 2025) (Some 4) 1) = ''0h 05m''
   \<and> overtime (calculateDailyMetricsFromTimes clockParse allPrecomputed (Some 2025) (Some 4) 1) = ''1h 00m''
   \<and> total_hours (calculateDailyMetricsFromTimes clockParse allPrecomputed (Some 2025) (Some 4) 1) = ''9h 00m''
   \<and> undertime_hours (calculateDailyMetricsFromTimes clockParse allPrecomputed (Some 2025) (Some 4) 1) = ''0''
   \<and> undertime_minutes (calculateDailyMetricsFromTimes clockParse allPrecomputed (Some 2025) (Some 4) 1) = ''30''
   \<and> calculateDailyMetricsFromTimes clockParse lateMorning (Some 2025) (Some 4) 1
       = calculateDailyMetricsFromTimes clockParse (lateMorning\<lparr>undertime_excel := []\<rparr>) (Some 2025) (Some 4) 1"
proof -
  have a: "late_excel allPrecomputed \<noteq> []" "overtime_hours_excel allPrecomputed \<noteq> []"
    "total_hours_excel allPrecomputed \<noteq> []"
    by (simp_all add: allPrecomputed_fields)
  have u: "matchHM (undertime_excel allPrecomputed) = Some (''0'', ''30'')"
    by (simp add: allPrecomputed_fields matchHM_half_hour)
  have n: "matchHM (undertime_excel lateMorning) = None"
    by (simp add: lateMorning_def emptyRecord_def matchHM_def)
  have d: "strNat (digitsVal ''0'') = ''0''" "strNat (digitsVal ''30'') = ''30''"
    by (simp_all add: digitsVal_def digitVal_def strNat.simps)
  note t = precomputed_fields_take_precedence [of allPrecomputed clockParse "Some 2025" "Some 4" 1]
  note t' = precomputed_fields_take_precedence [of lateMorning clockParse "Some 2025" "Some 4" 1]
  have 1: "late (calculateDailyMetricsFromTimes clockParse allPrecomputed (Some 2025) (Some 4) 1)
             = late_excel allPrecomputed"
    using t a(1) by blast
  have 2: "overtime (calculateDailyMetricsFromTimes clockParse allPrecomputed (Some 2025) (Some 4) 1)
             = overtime_hours_excel allPrecomputed"
    using t a(2) by blast
  have 3: "total_hours (calculateDailyMetricsFromTimes clockParse allPrecomputed (Some 2025) (Some 4) 1)
             = total_hours_excel allPrecomputed"
    using t a(3) by blast
  have 4: "undertime_hours (calculateDailyMetricsFromTimes clockParse allPrecomputed (Some 2025) (Some 4) 1)
             = strNat (digitsVal ''0'')"
    using t u by blast
  have 5: "undertime_minutes (calculateDailyMetricsFromTimes clockParse allPrecomputed (Some 2025) (Some 4) 1)
             = strNat (digitsVal ''30'')"
    using t u by blast
  have 6: "calculateDailyMetricsFromTimes clockParse lateMorning (Some 2025) (Some 4) 1
       = calculateDailyMetricsFromTimes clockParse (lateMorning\<lparr>undertime_excel := []\<rparr>) (Some 2025) (Some 4) 1"
    using t' n by blast
  show ?thesis
    using a u n 6 by (simp add: 1 2 3 4 5 d allPrecomputed_fields)
qed

lemma ignoredUndertime_fields:
  "undertime_excel (lateMorning\<lparr>undertime_excel := ''45''\<rparr>) = ''45''"
  "late_excel (lateMorning\<lparr>late_excel := ''0h 05m''\<rparr>) = ''0h 05m''"
  by simp_all

lemma lateMorning_undertime:
  "undertime_hours (calculateDailyMetricsFromTimes clockParse (lateMorning\<lparr>undertime_excel := ''45''\<rparr>)
      (Some 2025) (Some 4) 1) = ''4''"
  "undertime_minutes (calculateDailyMetricsFromTimes clockParse (lateMorning\<lparr>undertime_excel := ''45''\<rparr>)
      (Some 2025) (Some 4) 1) = ''15''"
  by (simp_all only: calcBlock_expand metrics.simps times.simps)
     (simp_all add: lateMorning_def emptyRecord_def precomputedUndertime_def matchHM_def isDigit_def
        hasActualWorkEntries_def timeOf_def april_first clock_0815 clock_1200
        workedUndertime_eval workedMillis_def uString_def str_eval)

lemma lateMorning_remarks:
  "remarks (calculateDailyMetricsFromTimes clockParse (lateMorning\<lparr>late_excel := ''0h 05m''\<rparr>)
      (Some 2025) (Some 4) 1) = []"
  "remarks (calculateDailyMetricsFromTimes clockParse lateMorning (Some 2025) (Some 4) 1) = ''Late''"
  by (simp_all only: calcBlock_expand metrics.simps times.simps)
     (simp_all add: lateMorning_def emptyRecord_def timeOf_def april_first clock_0800 clock_0815
        clock_1200 clock_1700 lateStep_def earlyOutStep_def overtimeStep_def pairDuration_def
        appendRemark_def)

theorem precomputed_fields_counterexample:
  "undertime_excel (lateMorning\<lparr>undertime_excel := ''45''\<rparr>) \<noteq> []
   \<and> undertime_hours (calculateDailyMetricsFromTimes clockParse
        (lateMorning\<lparr>undertime_excel := ''45''\<rparr>) (Some 2025) (Some 4) 1) = ''4''
   \<and> undertime_minutes (calculateDailyMetricsFromTimes clockParse
        (lateMorning\<lparr>undertime_excel := ''45''\<rparr>) (Some 2025) (Some 4) 1) = ''15''
   \<and> late_excel (lateMorning\<lparr>late_excel := ''0h 05m''\<rparr>) \<noteq> []
   \<and> remarks (calculateDailyMetricsFromTimes clockParse
        (lateMorning\<lparr>late_excel := ''0h 05m''\<rparr>) (Some 2025) (Some 4) 1) = []
   \<and> remarks (calculateDailyMetricsFromTimes clockParse lateMorning (Some 2025) (Some 4) 1) = ''Late''"
  by (simp only: lateMorning_undertime lateMorning_remarks ignoredUndertime_fields) simp


subsection \<open>The length of a month\<close>

lemma div_mod_pred:
  fixes a d :: int
  assumes "0 < d"
  shows "(a - 1) div d = a div d - (if a mod d = 0 then 1 else 0)"
    and "(a - 1) mod d = (if a mod d = 0 then d - 1 else a mod d - 1)"
proof -
  have a: "a = d * (a div d) + a mod d" by simp
  show "(a - 1) div d = a div d - (if a mod d = 0 then 1 else 0)"
  proof (cases "a mod d = 0")
    case True
    have "a - 1 = d * (a div d - 1) + (d - 1)"
      using a True by (simp add: algebra_simps)
    from int_div_pos_eq [OF this] assms True show ?thesis by simp
  next
    case False
    have p: "0 \<le> a mod d - 1" "a mod d - 1 < d"
      using False assms pos_mod_sign [of d a] pos_mod_bound [of d a] by linarith+
    have "a - 1 = d * (a div d) + (a mod d - 1)" using a by linarith
    from int_div_pos_eq [OF this p] False show ?thesis by simp
  qed
  show "(a - 1) mod d = (if a mod d = 0 then d - 1 else a mod d - 1)"
  proof (cases "a mod d = 0")
    case True
    have "a - 1 = d * (a div d - 1) + (d - 1)"
      using a True by (simp add: algebra_simps)
    from int_mod_pos_eq [OF this] assms True show ?thesis by simp
  next
    case False
    have p: "0 \<le> a mod d - 1" "a mod d - 1 < d"
      using False assms pos_mod_sign [of d a] pos_mod_bound [of d a] by linarith+
    have "a - 1 = d * (a div d) + (a mod d - 1)" using a by linarith
    from int_mod_pos_eq [OF this p] False show ?thesis by simp
  qed
qed

lemma shifted_mod:
  "((y::int) - 1968) mod 4 = y mod 4" "(y - 1900) mod 100 = y mod 100"
  "(y - 1600) mod 400 = y mod 400"
proof -
  have "y - 1968 = y + 4 * (- 492)" "y - 1900 = y + 100 * (- 19)" "y - 1600 = y + 400 * (- 4)"
    by simp_all
  then show "(y - 1968) mod 4 = y mod 4" "(y - 1900) mod 100 = y mod 100"
    "(y - 1600) mod 400 = y mod 400"
    by (simp_all only: mod_mult_self2)
qed

lemma DayFromYear_step:
  "DayFromYear (y + 1) - DayFromYear y
     = 365 + (if y mod 4 = 0 then 1 else 0) - (if y mod 100 = 0 then 1 else 0)
       + (if y mod 400 = 0 then 1 else 0)"
proof -
  have 1: "(y - 1969) div 4 = (y - 1968) div 4 - (if y mod 4 = 0 then 1 else 0)"
    using div_mod_pred(1) [of 4 "y - 1968"] by (simp add: shifted_mod)
  have 2: "(y - 1901) div 100 = (y - 1900) div 100 - (if y mod 100 = 0 then 1 else 0)"
    using div_mod_pred(1) [of 100 "y - 1900"] by (simp add: shifted_mod)
  have 3: "(y - 1601) div 400 = (y - 1600) div 400 - (if y mod 400 = 0 then 1 else 0)"
    using div_mod_pred(1) [of 400 "y - 1600"] by (simp add: shifted_mod)
  show ?thesis
    unfolding DayFromYear_def by (simp add: 1 2 3)
qed

lemma century_mods:
  fixes y :: int
  shows "y mod 100 = 0 \<Longrightarrow> y mod 4 = 0" and "y mod 400 = 0 \<Longrightarrow> y mod 100 = 0"
proof -
  have "y mod 100 mod 4 = y mod 4" by (rule mod_mod_cancel) simp
  then show "y mod 100 = 0 \<Longrightarrow> y mod 4 = 0" by simp
  have "y mod 400 mod 100 = y mod 100" by (rule mod_mod_cancel) simp
  then show "y mod 400 = 0 \<Longrightarrow> y mod 100 = 0" by simp
qed

lemma DayFromYear_leap_step:
  "DayFromYear (y + 1) - DayFromYear y = (if InLeapYear y then 366 else 365)"
proof -
  consider (a) "y mod 400 = 0" | (b) "y mod 400 \<noteq> 0" "y mod 100 = 0"
    | (c) "y mod 100 \<noteq> 0" "y mod 4 = 0" | (d) "y mod 4 \<noteq> 0"
    by blast
  then show ?thesis
  proof cases
    case a
    then have "y mod 100 = 0" "y mod 4 = 0" using century_mods [of y] by simp_all
    with a show ?thesis by (simp add: DayFromYear_step InLeapYear_def)
  next
    case b
    then have "y mod 4 = 0" using century_mods(1) [of y] by simp
    with b show ?thesis by (simp add: DayFromYear_step InLeapYear_def)
  next
    case c
    then have "y mod 400 \<noteq> 0" using century_mods(2) [of y] by auto
    with c show ?thesis by (simp add: DayFromYear_step InLeapYear_def)
  next
    case d
    then have "y mod 100 \<noteq> 0" using century_mods(1) [of y] by auto
    moreover from this have "y mod 400 \<noteq> 0" using century_mods(2) [of y] by auto
    ultimately show ?thesis using d by (simp add: DayFromYear_step InLeapYear_def)
  qed
qed

lemma monthOffset_step:
  assumes "mn < 11"
  shows "28 \<le> monthOffset y (Suc mn) - monthOffset y mn
         \<and> monthOffset y (Suc mn) - monthOffset y mn \<le> 31"
proof -
  from assms have "mn = 0 \<or> mn = 1 \<or> mn = 2 \<or> mn = 3 \<or> mn = 4 \<or> mn = 5 \<or> mn = 6
                   \<or> mn = 7 \<or> mn = 8 \<or> mn = 9 \<or> mn = 10"
    by arith
  then show ?thesis
    by (elim disjE) (simp_all add: monthOffset_def)
qed

lemma monthOffset_december: "monthOffset y 11 = (if InLeapYear y then 335 else 334)"
  by (simp add: monthOffset_def)

lemma monthOffset_january: "monthOffset y 0 = 0"
  by (simp add: monthOffset_def)

lemma MakeDay_month_length:
  "28 \<le> MakeDay y m 1 - MakeDay y (m - 1) 1 \<and> MakeDay y m 1 - MakeDay y (m - 1) 1 \<le> 31"
proof (cases "m mod 12 = 0")
  case True
  have d: "(m - 1) div 12 = m div 12 - 1" and r: "(m - 1) mod 12 = 11"
    using div_mod_pred [of 12 m] True by simp_all
  have s: "DayFromYear (y + m div 12) - DayFromYear (y + (m div 12 - 1))
             = (if InLeapYear (y + (m div 12 - 1)) then 366 else 365)"
    using DayFromYear_leap_step [of "y + (m div 12 - 1)"] by (simp add: algebra_simps)
  show ?thesis
    using s by (simp add: MakeDay_def Let_def True d r monthOffset_december monthOffset_january)
next
  case False
  have d: "(m - 1) div 12 = m div 12" and r: "(m - 1) mod 12 = m mod 12 - 1"
    using div_mod_pred [of 12 m] False by simp_all
  have b: "1 \<le> m mod 12" "m mod 12 \<le> 11"
    using False pos_mod_sign [of 12 m] pos_mod_bound [of 12 m] by linarith+
  define k where "k = nat (m mod 12 - 1)"
  have k: "nat (m mod 12) = Suc k" "nat (m mod 12 - 1) = k" "k < 11"
    using b by (auto simp: k_def)
  show ?thesis
    using monthOffset_step [OF k(3), of "y + m div 12"]
    by (simp add: MakeDay_def Let_def d r k)
qed

lemma lastDayOfMonth_bounds:
  "\<exists>n. lastDayOfMonth (Some y) (Some m) = Some n \<and> 28 \<le> n \<and> n \<le> 31"
  using MakeDay_month_length [of "fullYear y" m] by (simp add: lastDayOfMonth_def)


subsection \<open>The simple-format parser\<close>

text \<open>What every employee in the parser's map satisfies.\<close>

lemma day_fillSlot [simp]: "day (fillSlot tt ci co slot) = day slot"
  by (simp add: fillSlot_def)

lemma map_day_update:
  "map day (xs[i := fillSlot tt ci co (xs ! i)]) = map day xs"
  by (cases "i < length xs") (simp_all add: map_update list_update_same_conv list_update_beyond)

lemma map_succ_upto: "map (\<lambda>x. x + 1) [i..j] = [i + 1..j + 1]"
  by (rule nth_equalityI) auto

lemma map_day_initialTimeCard: "map day (initialTimeCard y m) = [1..31]"
  by (simp add: initialTimeCard_def initialSlot_def comp_def map_succ_upto)

lemma recordClock_fields [simp]:
  "userId (recordClock d tt ci co e) = userId e"
  "name (recordClock d tt ci co e) = name e"
  "department (recordClock d tt ci co e) = department e"
  "month (recordClock d tt ci co e) = month e"
  "attendanceDateRange (recordClock d tt ci co e) = attendanceDateRange e"
  "tablingDate (recordClock d tt ci co e) = tablingDate e"
  "map day (timeCard (recordClock d tt ci co e)) = map day (timeCard e)"
  by (simp_all add: recordClock_def map_day_update)

lemma set_mapSet: "set (mapSet k v kvs) \<subseteq> insert (k, v) (set kvs)"
  by (induction kvs) (auto split: if_splits)

lemma simpleShape_new: "simpleShape (newEmployee nm y m)"
  by (simp add: simpleShape_def newEmployee_def map_day_initialTimeCard)

lemma simpleShape_recordClock: "simpleShape e \<Longrightarrow> simpleShape (recordClock d tt ci co e)"
  by (simp add: simpleShape_def)

lemma simpleRowStep_shape:
  assumes "\<forall>p \<in> set employeeMap. simpleShape (snd p)"
  shows "\<forall>p \<in> set (simpleRowStep pf employeeMap row). simpleShape (snd p)"
proof -
  have upd: "\<forall>p \<in> set (mapSet key (recordClock d tt ci co emp) employeeMap). simpleShape (snd p)"
    if "simpleShape emp" for key d tt ci co emp
  proof
    fix p assume "p \<in> set (mapSet key (recordClock d tt ci co emp) employeeMap)"
    with set_mapSet [of key "recordClock d tt ci co emp" employeeMap]
    have "p = (key, recordClock d tt ci co emp) \<or> p \<in> set employeeMap" by auto
    then show "simpleShape (snd p)"
      using simpleShape_recordClock [OF that, of d tt ci co] assms by auto
  qed
  have found: "simpleShape e" if "map_of employeeMap key = Some e" for key e
    using map_of_SomeD [OF that] assms by force
  show ?thesis
  proof (cases "trim (rowName row) = [] \<or> rowDate row = DateText []
                \<or> toUpperCase (trim (rowTimetable row)) = []")
    case True
    then show ?thesis using assms by (simp add: simpleRowStep_def Let_def)
  next
    case False
    show ?thesis
    proof (cases "rowDateOf pf (rowDate row)")
      case None
      then show ?thesis using False assms by (simp add: simpleRowStep_def Let_def)
    next
      case (Some date)
      let ?key = "trim (rowName row) @ ''-'' @ strInt (cYear date) @ ''-'' @ padStart2 (strInt (cMonth date))"
      have "simpleShape (case map_of employeeMap ?key of Some e \<Rightarrow> e
              | None \<Rightarrow> newEmployee (trim (rowName row)) (cYear date) (cMonth date))"
        using found simpleShape_new by (auto split: option.splits)
      from upd [OF this] show ?thesis
        using False Some by (simp add: simpleRowStep_def Let_def)
    qed
  qed
qed

lemma foldl_simpleRowStep_shape:
  "\<forall>p \<in> set employeeMap. simpleShape (snd p) \<Longrightarrow>
   \<forall>p \<in> set (foldl (simpleRowStep pf) employeeMap rows). simpleShape (snd p)"
proof (induction rows arbitrary: employeeMap)
  case Nil
  then show ?case by simp
next
  case (Cons row rows)
  from Cons.IH [OF simpleRowStep_shape [OF Cons.prems]] show ?case by simp
qed

lemma day_withMetrics [simp]: "day (withMetrics slot m) = day slot"
  by (simp add: withMetrics_def metrics.extend_def)

lemma finishEmployee_fields [simp]:
  "userId (finishEmployee pf e) = userId e"
  "name (finishEmployee pf e) = name e"
  "department (finishEmployee pf e) = department e"
  "month (finishEmployee pf e) = month e"
  "attendanceDateRange (finishEmployee pf e) = attendanceDateRange e"
  "tablingDate (finishEmployee pf e) = tablingDate e"
  "map day (timeCard (finishEmployee pf e)) = map day (timeCard e)"
  by (simp_all add: finishEmployee_def case_prod_beta comp_def)

lemma simpleShape_finish: "simpleShape e \<Longrightarrow> simpleShape (finishEmployee pf e)"
  by (simp add: simpleShape_def)

lemma parseSimpleBiometric_shape:
  assumes "e \<in> set (parseSimpleBiometric pf rows)"
  shows "simpleShape e"
proof -
  from assms obtain p where m: "p \<in> set (foldl (simpleRowStep pf) [] rows)"
    and e: "e = finishEmployee pf (snd p)"
    by (auto simp: parseSimpleBiometric_def)
  have "\<forall>p \<in> set (foldl (simpleRowStep pf) [] rows). simpleShape (snd p)"
    by (rule foldl_simpleRowStep_shape) simp
  with m have "simpleShape (snd p)" by auto
  then show ?thesis unfolding e by (rule simpleShape_finish)
qed

text \<open>A flat sheet with one row: Ana, 10 April 2025, the morning session.\<close>

lemma parse_tenth_of_april:
  "parseDdMmYyyyDateString ''10/04/2025'' = Some \<lparr>cYear = 2025, cMonth = 4, cDay = 10\<rparr>"
  by (simp add: parseDdMmYyyyDateString_def parseInt_def isSpace_def isDigit_def digitsVal_def
      digitVal_def lastDayOfMonth_def MakeDay_def DayFromYear_def monthOffset_def InLeapYear_def
      fullYear_def Let_def)


subsection \<open>Month texts\<close>

lemma digit_not_sign: "isDigit c \<Longrightarrow> c \<noteq> CHR ''-'' \<and> c \<noteq> CHR ''+'' \<and> \<not> isSpace c"
  by (auto simp: isDigit_def isSpace_def)

lemma parseInt_digits:
  assumes "list_all isDigit ds" and "ds \<noteq> []"
  shows "parseInt ds = Some (int (digitsVal ds))"
proof -
  from assms obtain c cs where ds: "ds = c # cs" by (cases ds) auto
  with assms have c: "isDigit c" by simp
  have t: "takeWhile isDigit ds = ds" using assms(1) by (simp add: list_all_iff)
  show ?thesis
    using digit_not_sign [OF c] t
    by (simp add: parseInt_def ds Let_def)
qed

lemma splitOn_no_delim: "d \<notin> set s \<Longrightarrow> splitOn d s = [s]"
  by (induction s) auto

lemma monthParts_monthString:
  assumes "isMonthString m"
  shows "\<exists>y mo. monthParts m = (Some y, Some mo)"
proof -
  from assms obtain a b c d e f where m: "m = [a, b, c, d, CHR ''-'', e, f]"
    and dg: "isDigit a" "isDigit b" "isDigit c" "isDigit d" "isDigit e" "isDigit f"
    by (auto simp: isMonthString_def split: list.splits)
  have n: "a \<noteq> CHR ''-''" "b \<noteq> CHR ''-''" "c \<noteq> CHR ''-''" "d \<noteq> CHR ''-''"
    "e \<noteq> CHR ''-''" "f \<noteq> CHR ''-''"
    using dg digit_not_sign by blast+
  have s: "splitOn (CHR ''-'') m = [[a, b, c, d], [e, f]]"
    using n by (simp add: m)
  have "parseInt [a, b, c, d] = Some (int (digitsVal [a, b, c, d]))"
    "parseInt [e, f] = Some (int (digitsVal [e, f]))"
    using dg by (simp_all add: parseInt_digits)
  then show ?thesis by (simp add: monthParts_def s)
qed

lemma daysInMonth_monthString:
  assumes "isMonthString m"
  shows "\<exists>n. daysInMonth m = Some n \<and> 28 \<le> n \<and> n \<le> 31"
proof -
  from monthParts_monthString [OF assms] obtain y mo where "monthParts m = (Some y, Some mo)"
    by blast
  then show ?thesis using lastDayOfMonth_bounds [of y mo] by (simp add: daysInMonth_def)
qed

lemma april_2025: "daysInMonth ''2025-04'' = Some 30"
  by (simp add: daysInMonth_def monthParts_def parseInt_def isSpace_def isDigit_def digitsVal_def
      digitVal_def lastDayOfMonth_def MakeDay_def DayFromYear_def monthOffset_def InLeapYear_def
      fullYear_def Let_def)

subsection \<open>Scanning a range\<close>

lemma scanRange_filter:
  "scanRange rg t = filter t (List.product [fst (fst rg)..fst (snd rg)] [snd (fst rg)..snd (snd rg)])"
proof -
  have inner: "concat (map (\<lambda>C. if t (R, C) then [(R, C)] else []) cs) = filter t (map (Pair R) cs)"
    for R cs
    by (induction cs) auto
  have outer: "concat (map (\<lambda>R. filter t (map (Pair R) cs)) rs) = filter t (List.product rs cs)"
    for rs cs
    by (induction rs) auto
  show ?thesis by (simp add: scanRange_def inner outer)
qed

lemma set_scanRange: "set (scanRange rg t) = {p. inRange rg p \<and> t p}"
  by (auto simp: scanRange_filter inRange_def)

lemma distinct_scanRange: "distinct (scanRange rg t)"
  by (simp add: scanRange_filter distinct_product)

lemma distinct_singleton: "distinct xs \<Longrightarrow> set xs = {p} \<Longrightarrow> xs = [p]"
proof (cases xs)
  case Nil
  assume "set xs = {p}" with Nil show ?thesis by simp
next
  case (Cons a as)
  assume d: "distinct xs" and s: "set xs = {p}"
  from s Cons have a: "a = p" by auto
  from d Cons have "a \<notin> set as" by simp
  moreover from s Cons have "set as \<subseteq> {p}" by auto
  ultimately have "as = []" using a by (cases as) auto
  with a Cons show ?thesis by simp
qed

lemma scanRange_unique:
  assumes "\<And>q. (inRange rg q \<and> t q) = (q = p)"
  shows "scanRange rg t = [p]"
  by (rule distinct_singleton [OF distinct_scanRange]) (auto simp: set_scanRange assms)

lemma scanRange_none:
  assumes "\<And>q. inRange rg q \<Longrightarrow> \<not> t q"
  shows "scanRange rg t = []"
  using assms set_scanRange [of rg t] by (cases "scanRange rg t") auto

subsection \<open>The block-format parser\<close>

lemma day_blockEntry [simp]: "day (blockEntry pf recs y m d) = d"
  by (simp add: blockEntry_def Let_def metrics.extend_def)

lemma buildEmployee_fields [simp]:
  "month (buildEmployee pf ctx blk) = ctxMonth ctx"
  "name (buildEmployee pf ctx blk) = blockName (ctxSheet ctx) blk"
  "userId (buildEmployee pf ctx blk) = blockUserId (ctxSheet ctx) blk"
  "map day (timeCard (buildEmployee pf ctx blk)) = dayRange (daysInMonth (ctxMonth ctx))"
  by (simp_all add: buildEmployee_def Let_def case_prod_beta comp_def daysInMonth_def)

lemma processBlocks_filter:
  "processBlocks pf ctx blks acc
     = acc @ map (buildEmployee pf ctx)
               (filter (\<lambda>blk. blockName (ctxSheet ctx) blk \<noteq> [] \<and> blockUserId (ctxSheet ctx) blk \<noteq> [])
                  blks)"
  by (induction blks arbitrary: acc) auto

lemma blockSpans_fst: "map fst (blockSpans cs lastCol) = cs"
  by (induction cs lastCol rule: blockSpans.induct) auto

lemma blockSpans_empty [simp]: "(blockSpans cs lastCol = []) = (cs = [])"
  by (induction cs lastCol rule: blockSpans.induct) auto

lemma ctxSheet_sheetContext [simp]: "ctxSheet (sheetContext pf sh e) = sh"
  by (simp add: sheetContext_def)

lemma no_headers_no_spans:
  "dayHeaderLocations sh e = [] \<Longrightarrow> discoverBlockSpans sh e = []"
  by (simp add: discoverBlockSpans_def sortedDayColumnIndices_def)

lemma parseSheet_accepted:
  assumes "sheetRef sh = Some e"
  shows "parseSingleEmployeeAttendanceSheet pf sh
     = Some (map (buildEmployee pf (sheetContext pf sh e))
               (filter (\<lambda>blk. blockName sh blk \<noteq> [] \<and> blockUserId sh blk \<noteq> [])
                  (discoverBlockSpans sh e)))"
  by (simp add: parseSingleEmployeeAttendanceSheet_def assms processBlocks_filter
      no_headers_no_spans)


subsection \<open>The sheets and rows of the witnesses\<close>

lemmas text_eval = trim_def isSpace_def toLowerCase_def toUpperCase_def lowerChar_def upperChar_def

lemmas label_eval = cellMatches_def cellEquals_def labelMatches_def matchesDayHeader_def
  HEADER_DAY_def HEADER_NAME_def HEADER_USER_ID_def HEADER_DEPARTMENT_def HEADER_IN_def
  HEADER_OUT_def GLOBAL_DATE_RANGE_TEXT_def TABLING_DATE_TEXT_def

lemma anaRow_parsed:
  "simpleRowStep demoPlatform [] anaRow
     = [(''Ana-2025-04'', recordClock 10 ''AM'' ''08:00'' ''12:00'' (newEmployee ''Ana'' 2025 4))]"
  by (simp add: simpleRowStep_def anaRow_def rowDateOf_def text_eval parse_tenth_of_april
      str_eval Let_def)

lemma anaRow_employee:
  "parseSimpleBiometric demoPlatform [anaRow]
     = [finishEmployee demoPlatform
          (recordClock 10 ''AM'' ''08:00'' ''12:00'' (newEmployee ''Ana'' 2025 4))]"
  by (simp add: parseSimpleBiometric_def anaRow_parsed)

lemma anaRow_month:
  "month (hd (parseSimpleBiometric demoPlatform [anaRow])) = ''2025-04''"
  "name (hd (parseSimpleBiometric demoPlatform [anaRow])) = ''Ana''"
  by (simp_all add: anaRow_employee newEmployee_def str_eval)

lemma twoBlock_day_headers:
  "set (dayHeaderLocations twoBlockSheet (3, 9)) = {(2, 0), (2, 5)}"
  by (auto simp: dayHeaderLocations_def findAllCellsByValue_def set_scanRange inRange_def
      twoBlockSheet_def HEADER_SEARCH_START_ROW_def label_eval text_eval split: if_splits)

lemma sortedDayColumnIndices_set:
  "sortedDayColumnIndices sh e = sorted_list_of_set (snd ` set (dayHeaderLocations sh e))"
  by (simp only: sortedDayColumnIndices_def sorted_list_of_set_sort_remdups [symmetric] set_map)

lemma twoBlock_spans: "discoverBlockSpans twoBlockSheet (3, 9) = [(0, 4), (5, 9)]"
  by (simp add: discoverBlockSpans_def sortedDayColumnIndices_set twoBlock_day_headers)

lemma twoBlock_name_cell:
  "findCellByValue twoBlockSheet HEADER_NAME (blockHeaderSearchRange (0, 4)) = Some (0, 0)"
proof -
  have "scanRange (blockHeaderSearchRange (0, 4)) (\<lambda>p. cellEquals HEADER_NAME (cellAt twoBlockSheet p))
          = [(0, 0)]"
    by (rule scanRange_unique)
       (auto simp: inRange_def blockHeaderSearchRange_def HEADER_SEARCH_START_ROW_def
          HEADER_SEARCH_END_ROW_def twoBlockSheet_def label_eval text_eval split: if_splits)
  then show ?thesis by (simp add: findCellByValue_def twoBlockSheet_def)
qed

lemma twoBlock_id_cell:
  "findCellByValue twoBlockSheet HEADER_USER_ID (blockHeaderSearchRange (0, 4)) = Some (1, 0)"
proof -
  have "scanRange (blockHeaderSearchRange (0, 4)) (\<lambda>p. cellEquals HEADER_USER_ID (cellAt twoBlockSheet p))
          = [(1, 0)]"
    by (rule scanRange_unique)
       (auto simp: inRange_def blockHeaderSearchRange_def HEADER_SEARCH_START_ROW_def
          HEADER_SEARCH_END_ROW_def twoBlockSheet_def label_eval text_eval split: if_splits)
  then show ?thesis by (simp add: findCellByValue_def twoBlockSheet_def)
qed

lemma twoBlock_second_name_cell:
  "findCellByValue twoBlockSheet HEADER_NAME (blockHeaderSearchRange (5, 9)) = None"
proof -
  have "scanRange (blockHeaderSearchRange (5, 9)) (\<lambda>p. cellEquals HEADER_NAME (cellAt twoBlockSheet p))
          = []"
    by (rule scanRange_none)
       (auto simp: inRange_def blockHeaderSearchRange_def HEADER_SEARCH_START_ROW_def
          HEADER_SEARCH_END_ROW_def twoBlockSheet_def label_eval text_eval split: if_splits)
  then show ?thesis by (simp add: findCellByValue_def twoBlockSheet_def)
qed

lemma twoBlock_names:
  "blockName twoBlockSheet (0, 4) = ''Ana''" "blockUserId twoBlockSheet (0, 4) = ''7''"
  "blockName twoBlockSheet (5, 9) = []"
  by (simp_all add: blockName_def blockUserId_def twoBlock_name_cell twoBlock_id_cell
      twoBlock_second_name_cell valueRightOf_def)
     (simp_all add: twoBlockSheet_def cellText_def text_eval str_eval)

lemma twoBlock_range: "findAttendanceDateRange twoBlockSheet (3, 9) = []"
proof -
  let ?locs = "findAllCellsByValue twoBlockSheet GLOBAL_DATE_RANGE_TEXT (globalHeaderSearchRange (3, 9))"
  have s: "set ?locs = {(2, 0), (2, 5)}"
    by (auto simp: findAllCellsByValue_def set_scanRange inRange_def globalHeaderSearchRange_def
        HEADER_SEARCH_END_ROW_def twoBlockSheet_def label_eval text_eval split: if_splits)
  then obtain loc rest where l: "?locs = loc # rest" by (cases ?locs) auto
  with s have "loc = (2, 0) \<or> loc = (2, 5)" by auto
  then have "valueRightOf twoBlockSheet (Some loc) = []"
    by (auto simp: valueRightOf_def twoBlockSheet_def cellText_def text_eval)
  then show ?thesis by (simp add: findAttendanceDateRange_def l)
qed

lemma twoBlock_month: "ctxMonth (sheetContext demoPlatform twoBlockSheet (3, 9)) = ''2025-04''"
  by (simp add: sheetContext_def twoBlock_range reportMonthOf_def demoPlatform_def str_eval)

lemma twoBlock_parsed:
  "parseSingleEmployeeAttendanceSheet demoPlatform twoBlockSheet
     = Some [buildEmployee demoPlatform (sheetContext demoPlatform twoBlockSheet (3, 9)) (0, 4)]"
proof -
  have r: "sheetRef twoBlockSheet = Some (3, 9)" by (simp add: twoBlockSheet_def)
  show ?thesis
    by (simp add: parseSheet_accepted [OF r] twoBlock_spans twoBlock_names)
qed


subsection \<open>Employees of the simple-format parser\<close>

text \<open>
  C10. Every employee the simple-format parser returns has its user id equal to its
  name, and an empty department, attendance date range and tabling date.
\<close>

theorem simple_parser_identity_fields:
  assumes "e \<in> set (parseSimpleBiometric pf rows)"
  shows "userId e = name e \<and> department e = [] \<and> attendanceDateRange e = []
         \<and> tablingDate e = []"
  using parseSimpleBiometric_shape [OF assms] by (simp add: simpleShape_def)

theorem simple_parser_identity_fields_witness:
  "hd (parseSimpleBiometric demoPlatform [anaRow]) \<in> set (parseSimpleBiometric demoPlatform [anaRow])
   \<and> name (hd (parseSimpleBiometric demoPlatform [anaRow])) = ''Ana''
   \<and> userId (hd (parseSimpleBiometric demoPlatform [anaRow])) = ''Ana''
   \<and> department (hd (parseSimpleBiometric demoPlatform [anaRow])) = []
   \<and> attendanceDateRange (hd (parseSimpleBiometric demoPlatform [anaRow])) = []
   \<and> tablingDate (hd (parseSimpleBiometric demoPlatform [anaRow])) = []"
proof -
  have m: "hd (parseSimpleBiometric demoPlatform [anaRow])
             \<in> set (parseSimpleBiometric demoPlatform [anaRow])"
    by (simp add: anaRow_employee)
  from simple_parser_identity_fields [OF m] m show ?thesis
    by (simp add: anaRow_month)
qed

subsection \<open>The days of a time card\<close>

lemma timeSummary_days:
  assumes "m \<noteq> []"
  shows "map day (timeSummary (calculateEmployeeTimeSummary (Some tcard) m)) = dayRange (daysInMonth m)"
    and "summaryDays (calculateEmployeeTimeSummary (Some tcard) m) = daysInMonth m"
  using assms
  by (simp_all add: calculateEmployeeTimeSummary_def Let_def case_prod_beta comp_def
      daysInMonth_def metrics.extend_def)

lemma block_timeCard_days:
  assumes "parseSingleEmployeeAttendanceSheet pf sh = Some emps" and "e \<in> set emps"
  shows "map day (timeCard e) = dayRange (daysInMonth (month e))"
proof -
  from assms(1) obtain r where r: "sheetRef sh = Some r"
    by (cases "sheetRef sh") (simp_all add: parseSingleEmployeeAttendanceSheet_def)
  from assms parseSheet_accepted [OF r, of pf]
  obtain blk where "e = buildEmployee pf (sheetContext pf sh r) blk" by auto
  then show ?thesis by simp
qed

lemma simple_timeCard_days:
  "e \<in> set (parseSimpleBiometric pf rows) \<Longrightarrow> map day (timeCard e) = [1..31]"
  using parseSimpleBiometric_shape [of e pf rows] by (simp add: simpleShape_def)

text \<open>
  C1, as amended. The time card of every employee of the block-format parser, and the
  time summary \<open>calculateEmployeeTimeSummary\<close> returns for an employee and a non-empty
  month, have exactly the days 1 to \<open>daysInMonth(month)\<close> in order, and for a month text
  \<^verbatim>\<open>YYYY-MM\<close> that is a number from 28 to 31; the time card of every employee of the
  simple-format parser has exactly the 31 days 1 to 31, whatever the month.
\<close>

theorem timeCard_days_are_contiguous:
  "(parseSingleEmployeeAttendanceSheet pf sh = Some emps \<and> e \<in> set emps \<longrightarrow>
      map day (timeCard e) = dayRange (daysInMonth (month e)))
   \<and> (m \<noteq> [] \<longrightarrow>
      map day (timeSummary (calculateEmployeeTimeSummary (Some tcard) m)) = dayRange (daysInMonth m)
      \<and> summaryDays (calculateEmployeeTimeSummary (Some tcard) m) = daysInMonth m)
   \<and> (isMonthString m' \<longrightarrow>
      (\<exists>n. daysInMonth m' = Some n \<and> 28 \<le> n \<and> n \<le> 31 \<and> dayRange (daysInMonth m') = [1..n]))
   \<and> (e' \<in> set (parseSimpleBiometric pf rows) \<longrightarrow> map day (timeCard e') = [1..31])"
proof -
  have "\<exists>n. daysInMonth m' = Some n \<and> 28 \<le> n \<and> n \<le> 31 \<and> dayRange (daysInMonth m') = [1..n]"
    if "isMonthString m'"
    using daysInMonth_monthString [OF that] by (auto simp: dayRange_def)
  then show ?thesis
    using block_timeCard_days [of pf sh emps e] timeSummary_days [of m tcard]
      simple_timeCard_days [of e' pf rows]
    by blast
qed

theorem timeCard_days_are_contiguous_witness:
  "parseSingleEmployeeAttendanceSheet demoPlatform twoBlockSheet
     = Some [buildEmployee demoPlatform (sheetContext demoPlatform twoBlockSheet (3, 9)) (0, 4)]
   \<and> map day (timeCard (buildEmployee demoPlatform (sheetContext demoPlatform twoBlockSheet (3, 9)) (0, 4)))
       = [1..30]
   \<and> ''2025-04'' \<noteq> []
   \<and> map day (timeSummary (calculateEmployeeTimeSummary (Some []) ''2025-04'')) = [1..30]
   \<and> isMonthString ''2025-04''
   \<and> hd (parseSimpleBiometric demoPlatform [anaRow]) \<in> set (parseSimpleBiometric demoPlatform [anaRow])
   \<and> map day (timeCard (hd (parseSimpleBiometric demoPlatform [anaRow]))) = [1..31]"
proof -
  let ?E = "buildEmployee demoPlatform (sheetContext demoPlatform twoBlockSheet (3, 9)) (0, 4)"
  let ?S = "hd (parseSimpleBiometric demoPlatform [anaRow])"
  note t = timeCard_days_are_contiguous [of demoPlatform twoBlockSheet "[?E]" ?E "''2025-04''" "[]"
      "''2025-04''" ?S "[anaRow]"]
  have s: "?S \<in> set (parseSimpleBiometric demoPlatform [anaRow])"
    by (simp add: anaRow_employee)
  have i: "isMonthString ''2025-04''" by (simp add: isMonthString_def isDigit_def)
  have d: "dayRange (daysInMonth ''2025-04'') = [1..30]" by (simp add: april_2025 dayRange_def)
  have 1: "map day (timeCard ?E) = dayRange (daysInMonth (month ?E))"
    using t twoBlock_parsed by simp
  have 2: "map day (timeSummary (calculateEmployeeTimeSummary (Some []) ''2025-04''))
             = dayRange (daysInMonth ''2025-04'')"
    using t by simp
  have 3: "map day (timeCard ?S) = [1..31]"
    using t s by blast
  show ?thesis
    using 1 2 3 s i d by (simp add: twoBlock_parsed twoBlock_month)
qed

theorem simple_parser_timeCard_counterexample:
  "hd (parseSimpleBiometric demoPlatform [anaRow]) \<in> set (parseSimpleBiometric demoPlatform [anaRow])
   \<and> month (hd (parseSimpleBiometric demoPlatform [anaRow])) = ''2025-04''
   \<and> daysInMonth ''2025-04'' = Some 30
   \<and> length (timeCard (hd (parseSimpleBiometric demoPlatform [anaRow]))) = 31"
proof -
  have "length (map day (timeCard (hd (parseSimpleBiometric demoPlatform [anaRow])))) = 31"
    by (simp only: anaRow_employee list.sel finishEmployee_fields recordClock_fields
        newEmployee_def employee.simps map_day_initialTimeCard) simp
  then show ?thesis
    by (simp add: anaRow_month april_2025) (simp add: anaRow_employee)
qed

subsection \<open>Block discovery\<close>



lemma column_letters:
  "columnLetterToNumber ''B'' = 1" "columnLetterToNumber ''P'' = 15"
  "columnLetterToNumber ''Q'' = 16" "columnLetterToNumber ''AE'' = 30"
  "columnLetterToNumber ''AF'' = 31"
  by (simp_all add: columnLetterToNumber_def)

lemma threeBlock_day_headers:
  "snd ` set (dayHeaderLocations threeBlockSheet (1, 45)) = {1, 16, 31}"
proof -
  have "set (dayHeaderLocations threeBlockSheet (1, 45)) = {(0, 1), (0, 16), (0, 31)}"
    by (auto simp: dayHeaderLocations_def findAllCellsByValue_def set_scanRange inRange_def
        threeBlockSheet_def HEADER_SEARCH_START_ROW_def label_eval text_eval split: if_splits)
  then show ?thesis by simp
qed

text \<open>
  C6. The anchor columns of the blocks are the columns with a day header, in ascending
  order. When the day header occurs in exactly the columns B, Q and AF, block discovery
  gives exactly three blocks, with the column spans B to P, Q to AE, and AF to the last
  column of the worksheet.
\<close>

theorem three_anchor_columns_give_three_blocks:
  "map fst (discoverBlockSpans sh e) = sorted_list_of_set (snd ` set (dayHeaderLocations sh e))
   \<and> (snd ` set (dayHeaderLocations sh e)
         = {columnLetterToNumber ''B'', columnLetterToNumber ''Q'', columnLetterToNumber ''AF''}
       \<longrightarrow> discoverBlockSpans sh e
             = [(columnLetterToNumber ''B'', columnLetterToNumber ''P''),
                (columnLetterToNumber ''Q'', columnLetterToNumber ''AE''),
                (columnLetterToNumber ''AF'', snd e)])"
  by (simp add: discoverBlockSpans_def blockSpans_fst sortedDayColumnIndices_set column_letters)

theorem three_anchor_columns_give_three_blocks_witness:
  "snd ` set (dayHeaderLocations threeBlockSheet (1, 45))
     = {columnLetterToNumber ''B'', columnLetterToNumber ''Q'', columnLetterToNumber ''AF''}
   \<and> sheetRef threeBlockSheet = Some (1, 45)
   \<and> discoverBlockSpans threeBlockSheet (1, 45) = [(1, 15), (16, 30), (31, 45)]"
proof -
  have h: "snd ` set (dayHeaderLocations threeBlockSheet (1, 45))
     = {columnLetterToNumber ''B'', columnLetterToNumber ''Q'', columnLetterToNumber ''AF''}"
    by (simp add: threeBlock_day_headers column_letters)
  from three_anchor_columns_give_three_blocks [of threeBlockSheet "(1, 45)"] h
  have "discoverBlockSpans threeBlockSheet (1, 45)
             = [(columnLetterToNumber ''B'', columnLetterToNumber ''P''),
                (columnLetterToNumber ''Q'', columnLetterToNumber ''AE''),
                (columnLetterToNumber ''AF'', snd (1 :: int, 45 :: int))]"
    by blast
  then show ?thesis
    using h by (simp add: column_letters threeBlockSheet_def)
qed

subsection \<open>Format detection\<close>

lemma isSimple_subset:
  "isSimpleBiometricFormat sh = (set requiredSimpleHeaders \<subseteq> set (headerRow sh))"
  by (auto simp: isSimpleBiometricFormat_def list_all_iff)

lemma headerRow_set:
  "sheetRef sh \<noteq> None \<Longrightarrow>
   set (headerRow sh) = (\<lambda>C. toLowerCase (trim (cellText (cellAt sh (0, C))))) ` {0..25}"
  by (auto simp: headerRow_def)

text \<open>
  C7. The first worksheet is classified simple exactly when the lower-cased, trimmed
  texts of its row 1, columns A to Z, include all of name, date, timetable, clock in
  and clock out (membership in the set of header texts, so the column order does not
  matter); the workbook is then parsed by the simple-format parser, and otherwise by the
  block-format parser over its first 20 sheets.
\<close>

theorem simple_format_detection:
  "isSimpleBiometricFormat sh = (set requiredSimpleHeaders \<subseteq> set (headerRow sh))
   \<and> set requiredSimpleHeaders = {''name'', ''date'', ''timetable'', ''clock in'', ''clock out''}
   \<and> (sheetRef sh \<noteq> None \<longrightarrow>
        set (headerRow sh) = (\<lambda>C. toLowerCase (trim (cellText (cellAt sh (0, C))))) ` {0..25})
   \<and> parseWorkbook pf (sh # rest)
       = (if set requiredSimpleHeaders \<subseteq> set (headerRow sh)
          then Some (parseSimpleBiometric pf (sheetRows pf sh))
          else parseSheets pf (take 20 (sh # rest)))"
proof -
  have b: "set requiredSimpleHeaders = {''name'', ''date'', ''timetable'', ''clock in'', ''clock out''}"
    by (simp add: requiredSimpleHeaders_def)
  have d: "parseWorkbook pf (sh # rest)
       = (if set requiredSimpleHeaders \<subseteq> set (headerRow sh)
          then Some (parseSimpleBiometric pf (sheetRows pf sh))
          else parseSheets pf (take 20 (sh # rest)))"
    by (simp only: parseWorkbook_def list.case isSimple_subset)
  show ?thesis
    using isSimple_subset [of sh] b headerRow_set [of sh] d by blast
qed

lemma simpleSheet_headers:
  "set requiredSimpleHeaders \<subseteq> set (headerRow simpleSheet)"
proof -
  let ?f = "\<lambda>C. toLowerCase (trim (cellText (cellAt simpleSheet (0, C))))"
  have "''name'' \<in> ?f ` {0..25}"
    by (rule image_eqI [of _ _ 1]) (simp_all add: simpleSheet_def cellText_def text_eval)
  moreover have "''date'' \<in> ?f ` {0..25}"
    by (rule image_eqI [of _ _ 2]) (simp_all add: simpleSheet_def cellText_def text_eval)
  moreover have "''timetable'' \<in> ?f ` {0..25}"
    by (rule image_eqI [of _ _ 3]) (simp_all add: simpleSheet_def cellText_def text_eval)
  moreover have "''clock in'' \<in> ?f ` {0..25}"
    by (rule image_eqI [of _ _ 4]) (simp_all add: simpleSheet_def cellText_def text_eval)
  moreover have "''clock out'' \<in> ?f ` {0..25}"
    by (rule image_eqI [of _ _ 0]) (simp_all add: simpleSheet_def cellText_def text_eval)
  moreover have "sheetRef simpleSheet \<noteq> None" by (simp add: simpleSheet_def)
  ultimately show ?thesis
    by (simp add: headerRow_set requiredSimpleHeaders_def)
qed

lemma noTimetable_headers:
  "\<not> set requiredSimpleHeaders \<subseteq> set (headerRow noTimetableSheet)"
proof -
  have "''timetable'' \<noteq> toLowerCase (trim (cellText (cellAt noTimetableSheet (0, C))))" for C
    by (simp add: noTimetableSheet_def cellText_def text_eval)
  moreover have "sheetRef noTimetableSheet \<noteq> None" by (simp add: noTimetableSheet_def)
  ultimately show ?thesis
    by (auto simp: headerRow_set requiredSimpleHeaders_def)
qed

theorem simple_format_detection_witness:
  "sheetRef simpleSheet \<noteq> None \<and> isSimpleBiometricFormat simpleSheet
   \<and> parseWorkbook demoPlatform [simpleSheet]
       = Some (parseSimpleBiometric demoPlatform (sheetRows demoPlatform simpleSheet))
   \<and> \<not> isSimpleBiometricFormat noTimetableSheet
   \<and> parseWorkbook demoPlatform [noTimetableSheet] = parseSheets demoPlatform [noTimetableSheet]"
proof -
  have r: "sheetRef simpleSheet \<noteq> None" by (simp add: simpleSheet_def)
  from simple_format_detection [of simpleSheet demoPlatform "[]"]
    simple_format_detection [of noTimetableSheet demoPlatform "[]"]
  show ?thesis
    using r simpleSheet_headers noTimetable_headers by simp
qed


subsection \<open>What is stored, and what is read back\<close>





















subsection \<open>One persisting step\<close>






lemma keyId_updateRow [simp]: "keyId (updateRow op x) = keyId x"
  by (simp add: keyId_def rowKey_def updateRow_def setData_def)

lemma rowId_updateRow [simp]: "rowId (updateRow op x) = rowId x"
  by (simp add: updateRow_def setData_def)

lemma rowKey_updateRow [simp]: "rowKey (updateRow op x) = rowKey x"
  by (simp add: rowKey_def updateRow_def setData_def)

lemma keyId_newRow [simp]: "keyId (newRow i e) = (empKey e, i)"
  by (simp add: keyId_def rowKey_def empKey_def newRow_def)











subsection \<open>The second load works under the ids of the first\<close>





subsection \<open>Replacing the time records twice\<close>




subsection \<open>The well-formed stores\<close>








lemma length_idsSeq [simp]: "length (idsSeq db es) = length es"
  by (induction es arbitrary: db) simp_all


subsection \<open>The rows of the first load are fixed by its updates\<close>

lemma applyOps_snoc: "applyOps (ops @ [op]) x = updateRow op (applyOps ops x)"
  by (simp add: applyOps_def)

lemma rowId_applyOps [simp]: "rowId (applyOps ops x) = rowId x"
  by (induction ops rule: rev_induct) (simp_all add: applyOps_snoc, simp add: applyOps_def)

lemma rowKey_applyOps [simp]: "rowKey (applyOps ops x) = rowKey x"
  by (induction ops rule: rev_induct) (simp_all add: applyOps_snoc, simp add: applyOps_def)



lemma setData_keeps [simp]: "rowId (setData e x) = rowId x" "rowKey (setData e x) = rowKey x"
  by (simp_all add: setData_def rowKey_def)


lemma setData_newRow [simp]: "setData e (newRow i e) = newRow i e"
  by (simp add: setData_def newRow_def)


subsection \<open>Loading twice\<close>














end
